theory Spec2Isabelle
  imports Complex_Main
begin

unbundle bit_operations_syntax

section \<open>The Python/C boundary of scs: data model\<close>

text \<open>
  The development embeds \<^verbatim>\<open>src/python/scsmodule.c\<close>, the CPython extension module
  that hands a conic problem to the native solver \<^verbatim>\<open>scs\<close>.

  Modelling decisions, all visible in the definitions below:
  \<^item> Python objects are a datatype; a dictionary with string keys is a map.
  \<^item> Where the source reads a Python object through a pointer to a numpy array
    without a test that it is one, and the object is something else, the result is
    the value \<open>Inl UndefinedBehaviour\<close>; every other run yields \<open>Inr\<close> of its result.
  \<^item> Python integers are unbounded (\<open>int\<close>). The C type \<^verbatim>\<open>long\<close> has 64 bits and
    \<^verbatim>\<open>int\<close> has 32 bits (the LP64 data model); \<^verbatim>\<open>idxint\<close> is \<^verbatim>\<open>long\<close> when the
    module is built with \<^verbatim>\<open>DLONG\<close> and \<^verbatim>\<open>int\<close> otherwise, as the two argument
    format strings of \<^verbatim>\<open>csolve\<close> (\<^verbatim>\<open>"(ll)..."\<close> and \<^verbatim>\<open>"(ii)..."\<close>) require. A value
    of type \<^verbatim>\<open>idxint\<close> is an \<open>int\<close> inside its range, and the narrowing cast is written
    out as wrap-around.
  \<^item> \<^verbatim>\<open>pfloat\<close> (C \<^verbatim>\<open>double\<close>) is modelled by \<open>real\<close>; rounding and NaN are outside
    the model.
  \<^item> A C pointer that may be \<^verbatim>\<open>NULL\<close> is an \<open>option\<close>.
  \<^item> Output parameters are passed in and returned; the interpreter state that the
    C code changes on the side (the pending exception, the text written to standard
    error, the calls of the teardown routine and of the solver) is the record \<open>world\<close>.
\<close>

datatype pyexc = ValueError | TypeError | OverflowError

text \<open>The two compile-time switches the source file branches on.\<close>

record build =
  PY_MAJOR_VERSION :: nat
  DLONG :: bool

subsection \<open>numpy arrays\<close>

datatype NPY_TYPES =
    NPY_BOOL
  | NPY_BYTE | NPY_UBYTE | NPY_SHORT | NPY_USHORT | NPY_INT | NPY_UINT
  | NPY_LONG | NPY_ULONG | NPY_LONGLONG | NPY_ULONGLONG
  | NPY_FLOAT | NPY_DOUBLE | NPY_LONGDOUBLE
  | NPY_CFLOAT | NPY_CDOUBLE | NPY_CLONGDOUBLE
  | NPY_OBJECT | NPY_STRING | NPY_UNICODE | NPY_VOID
  | NPY_DATETIME | NPY_TIMEDELTA | NPY_HALF

record PyArrayObject =
  arr_type :: NPY_TYPES
  arr_dims :: "nat list"
  arr_data :: "real list"

definition PyTypeNum_ISFLOAT :: "NPY_TYPES \<Rightarrow> bool" where
  "PyTypeNum_ISFLOAT t = (t \<in> {NPY_FLOAT, NPY_DOUBLE, NPY_LONGDOUBLE, NPY_HALF})"

definition PyTypeNum_ISINTEGER :: "NPY_TYPES \<Rightarrow> bool" where
  "PyTypeNum_ISINTEGER t =
     (t \<in> {NPY_BYTE, NPY_UBYTE, NPY_SHORT, NPY_USHORT, NPY_INT, NPY_UINT,
           NPY_LONG, NPY_ULONG, NPY_LONGLONG, NPY_ULONGLONG})"

definition PyArray_ISFLOAT :: "PyArrayObject \<Rightarrow> bool" where
  "PyArray_ISFLOAT a = PyTypeNum_ISFLOAT (arr_type a)"

definition PyArray_ISINTEGER :: "PyArrayObject \<Rightarrow> bool" where
  "PyArray_ISINTEGER a = PyTypeNum_ISINTEGER (arr_type a)"

definition PyArray_NDIM :: "PyArrayObject \<Rightarrow> int" where
  "PyArray_NDIM a = int (length (arr_dims a))"

text \<open>
  \<^verbatim>\<open>PyArray_DIM(a, 0)\<close>. The source reads it only behind \<^verbatim>\<open>PyArray_NDIM(a) != 1 ||\<close>,
  so the first dimension exists wherever the model evaluates it.
\<close>

definition PyArray_DIM0 :: "PyArrayObject \<Rightarrow> int" where
  "PyArray_DIM0 a = (case arr_dims a of [] \<Rightarrow> 0 | k # _ \<Rightarrow> int k)"

subsection \<open>Python objects\<close>

text \<open>
  The objects that a dictionary handed to this module can hold, numpy arrays among
  them.
\<close>

datatype pyobj =
    PyNone
  | PyBool bool
  | PyInt int
  | PyLong int
  | PyFloat real
  | PyString string
  | PyList "pyobj list"
  | PyTuple "pyobj list"
  | PyArray PyArrayObject

type_synonym pydict = "string \<Rightarrow> pyobj option"

text \<open>
  Reading an object as an array that it is not has no behaviour defined by C. It ends
  the model's run: nothing can be said about what the program does from there.
\<close>

datatype fault = UndefinedBehaviour

subsection \<open>The solver's structures\<close>

text \<open>
  The structures are declared in headers of the solver (\<^verbatim>\<open>scs.h\<close>, \<^verbatim>\<open>cones.h\<close>,
  \<^verbatim>\<open>linsys/amatrix.h\<close>); the records have the fields that this file reads or writes.
  The contents of the index arrays of the matrix are kept as numbers, like those of
  every array.
\<close>

record AMatrix =
  A_x :: "real list"
  A_i :: "real list"
  A_p :: "real list"

record Data =
  d_m :: int
  d_n :: int
  d_A :: "AMatrix option"
  d_b :: "real list option"
  d_c :: "real list option"
  d_MAX_ITERS :: int
  d_VERBOSE :: int
  d_NORMALIZE :: int
  d_SCALE :: real
  d_EPS :: real
  d_CG_RATE :: real
  d_ALPHA :: real
  d_RHO_X :: real
  d_WARM_START :: int

record Cone =
  k_f :: int
  k_l :: int
  k_q :: "int list option"
  k_qsize :: int
  k_s :: "int list option"
  k_ssize :: int
  k_ep :: int
  k_ed :: int

record Sol =
  sol_x :: "real list option"
  sol_y :: "real list option"
  sol_s :: "real list option"

record Info =
  info_statusVal :: int
  info_iter :: int
  info_pobj :: real
  info_dobj :: real
  info_resPri :: real
  info_resDual :: real
  info_relGap :: real
  info_solveTime :: real
  info_setupTime :: real
  info_status :: string

record ScsPyData =
  ps_Ax :: "PyArrayObject option"
  ps_Ai :: "PyArrayObject option"
  ps_Ap :: "PyArrayObject option"
  ps_b :: "PyArrayObject option"
  ps_c :: "PyArrayObject option"
  ps_x0 :: "PyArrayObject option"
  ps_y0 :: "PyArrayObject option"
  ps_s0 :: "PyArrayObject option"

text \<open>What \<^verbatim>\<open>scs_calloc(sizeof(Data), 1)\<close> and \<^verbatim>\<open>scs_calloc(sizeof(Cone), 1)\<close> yield.\<close>

definition calloc_Data :: Data where
  "calloc_Data = \<lparr> d_m = 0, d_n = 0, d_A = None, d_b = None, d_c = None,
     d_MAX_ITERS = 0, d_VERBOSE = 0, d_NORMALIZE = 0, d_SCALE = 0, d_EPS = 0,
     d_CG_RATE = 0, d_ALPHA = 0, d_RHO_X = 0, d_WARM_START = 0 \<rparr>"

definition calloc_Cone :: Cone where
  "calloc_Cone = \<lparr> k_f = 0, k_l = 0, k_q = None, k_qsize = 0, k_s = None,
     k_ssize = 0, k_ep = 0, k_ed = 0 \<rparr>"

subsection \<open>What the teardown releases\<close>

datatype field =
    F_Ax | F_Ai | F_Ap | F_b | F_c | F_x0 | F_y0 | F_s0
  | F_k_q | F_k_s | F_k | F_d_A | F_d

datatype release = Py_DECREF field | scs_free field

subsection \<open>The interpreter state\<close>

record world =
  pyerr :: "(pyexc \<times> string) option"
  stderr :: "string list"
  reaped :: "release list list"
  solved :: "(Data \<times> Cone \<times> Sol) list"

definition PyErr_SetString :: "pyexc \<Rightarrow> string \<Rightarrow> world \<Rightarrow> world" where
  "PyErr_SetString e msg st = st\<lparr>pyerr := Some (e, msg)\<rparr>"

definition PySys_WriteStderr :: "string \<Rightarrow> world \<Rightarrow> world" where
  "PySys_WriteStderr msg st = st\<lparr>stderr := stderr st @ [msg]\<rparr>"

section \<open>Integer conversion\<close>

definition LONG_MIN :: int where "LONG_MIN = - (2 ^ 63)"
definition LONG_MAX :: int where "LONG_MAX = 2 ^ 63 - 1"

text \<open>
  The cast \<^verbatim>\<open>(idxint)\<close> applied to a C \<^verbatim>\<open>long\<close>: the identity under \<^verbatim>\<open>DLONG\<close>,
  and the reduction to 32 bits in two's complement otherwise.
\<close>

definition to_idxint :: "build \<Rightarrow> int \<Rightarrow> int" where
  "to_idxint bl r = (if DLONG bl then r else (r + 2 ^ 31) mod 2 ^ 32 - 2 ^ 31)"

definition IDXINT_MAX :: "build \<Rightarrow> int" where
  "IDXINT_MAX bl = (if DLONG bl then 2 ^ 63 - 1 else 2 ^ 31 - 1)"

text \<open>
  The type tests. Under Python 3 the source defines \<^verbatim>\<open>PyInt_Check\<close> as
  \<^verbatim>\<open>PyLong_Check\<close> and \<^verbatim>\<open>PyInt_AsLong\<close> as \<^verbatim>\<open>PyLong_AsLong\<close>. \<open>bool\<close> is a subclass
  of the machine-sized \<open>int\<close> in Python 2 and of the unbounded \<open>int\<close> in Python 3.
  \<open>PyInt\<close> objects exist in Python 2 only.
\<close>

definition PyLong_Check :: "build \<Rightarrow> pyobj \<Rightarrow> bool" where
  "PyLong_Check bl ob =
     (case ob of PyLong _ \<Rightarrow> True
               | PyBool _ \<Rightarrow> 3 \<le> PY_MAJOR_VERSION bl
               | _ \<Rightarrow> False)"

definition PyInt_Check :: "build \<Rightarrow> pyobj \<Rightarrow> bool" where
  "PyInt_Check bl ob =
     (if 3 \<le> PY_MAJOR_VERSION bl then PyLong_Check bl ob
      else (case ob of PyInt _ \<Rightarrow> True | PyBool _ \<Rightarrow> True | _ \<Rightarrow> False))"

text \<open>
  \<^verbatim>\<open>PyLong_AsLong\<close> (and \<^verbatim>\<open>PyInt_AsLong\<close>): the value when it fits a C \<^verbatim>\<open>long\<close>;
  otherwise \<open>-1\<close> with \<open>OverflowError\<close> pending. On an object that is no integer the
  result is \<open>-1\<close> with \<open>TypeError\<close> pending; the source calls it only behind the type
  test.
\<close>

definition long_result :: "int \<Rightarrow> world \<Rightarrow> int \<times> world" where
  "long_result v st =
     (if LONG_MIN \<le> v \<and> v \<le> LONG_MAX then (v, st)
      else (-1, PyErr_SetString OverflowError ''Python int too large to convert to C long'' st))"

definition PyLong_AsLong :: "pyobj \<Rightarrow> world \<Rightarrow> int \<times> world" where
  "PyLong_AsLong ob st =
     (case ob of
        PyLong v \<Rightarrow> long_result v st
      | PyInt v \<Rightarrow> long_result v st
      | PyBool t \<Rightarrow> (if t then 1 else 0, st)
      | _ \<Rightarrow> (-1, PyErr_SetString TypeError ''an integer is required'' st))"

definition PyInt_AsLong :: "pyobj \<Rightarrow> world \<Rightarrow> int \<times> world" where
  "PyInt_AsLong ob st = PyLong_AsLong ob st"

text \<open>
  The condition that \<^verbatim>\<open>getConeArrDim\<close> (twice) and \<^verbatim>\<open>getPosIntParam\<close> spell out:
  \<^verbatim>\<open>(PyInt_Check(o) && ((*v = (idxint) PyInt_AsLong(o)) >= 0)) ||
      (PyLong_Check(o) && ((*v = (idxint) PyLong_AsLong(o)) >= 0))\<close>
  with its short-circuit evaluation and its assignments to \<^verbatim>\<open>*v\<close>. The result is
  the truth value, the content of \<^verbatim>\<open>*v\<close> afterwards and the state.
\<close>

definition nonneg_idxint :: "build \<Rightarrow> pyobj \<Rightarrow> int \<Rightarrow> world \<Rightarrow> bool \<times> int \<times> world" where
  "nonneg_idxint bl ob v st =
     (let (t1, v1, st1) =
            (if PyInt_Check bl ob
             then (let (r, st') = PyInt_AsLong ob st; v' = to_idxint bl r
                   in (0 \<le> v', v', st'))
             else (False, v, st))
      in if t1 then (True, v1, st1)
         else if PyLong_Check bl ob
              then (let (r, st') = PyLong_AsLong ob st1; v' = to_idxint bl r
                    in (0 \<le> v', v', st'))
              else (False, v1, st1))"

section \<open>The parsers\<close>

definition printErr :: "string \<Rightarrow> world \<Rightarrow> int \<times> world" where
  "printErr key st =
     (-1, PySys_WriteStderr (''error parsing '' @ [CHR 0x27] @ key @ [CHR 0x27]) st)"

text \<open>
  The loop of \<^verbatim>\<open>getConeArrDim\<close> over the list items, from index \<open>i\<close>: each item is
  tested and stored into \<open>q[i]\<close>; the first item that fails the test ends the loop
  (\<open>False\<close>).
\<close>

fun getConeArrDim_loop ::
  "build \<Rightarrow> pyobj list \<Rightarrow> nat \<Rightarrow> int list \<Rightarrow> world \<Rightarrow> bool \<times> int list \<times> world" where
  "getConeArrDim_loop bl [] i q st = (True, q, st)"
| "getConeArrDim_loop bl (qi # rest) i q st =
     (let (t, v, st') = nonneg_idxint bl qi (q ! i) st
      in if \<not> t then (False, q[i := v], st')
         else getConeArrDim_loop bl rest (Suc i) (q[i := v]) st')"

text \<open>
  \<^verbatim>\<open>getConeArrDim(key, &varr, &vsize, cone)\<close>. The arguments \<open>varr\<close> and \<open>vsize\<close>
  are what the two output locations hold before the call; the result is the return
  code, what they hold afterwards, and the state. On the failing paths the function
  returns before it writes them.
\<close>

definition getConeArrDim ::
  "build \<Rightarrow> string \<Rightarrow> int list option \<Rightarrow> int \<Rightarrow> pydict \<Rightarrow> world
     \<Rightarrow> int \<times> int list option \<times> int \<times> world" where
  "getConeArrDim bl key varr vsize cone st =
     (case cone key of
        None \<Rightarrow> (0, None, 0, st)
      | Some ob \<Rightarrow>
          (case ob of
             PyList items \<Rightarrow>
               (let n = length items;
                    (t, q, st') = getConeArrDim_loop bl items 0 (replicate n 0) st
                in if \<not> t then (let (rc, st'') = printErr key st' in (rc, varr, vsize, st''))
                   else (0, Some q, int n, st'))
           | _ \<Rightarrow>
               if PyInt_Check bl ob \<or> PyLong_Check bl ob
               then (let (t, v, st') = nonneg_idxint bl ob 0 st
                     in if \<not> t then (let (rc, st'') = printErr key st' in (rc, varr, vsize, st''))
                        else (0, Some [v], 1, st'))
               else (let (rc, st') = printErr key st in (rc, varr, vsize, st'))))"

definition getPosIntParam ::
  "build \<Rightarrow> string \<Rightarrow> int \<Rightarrow> pydict option \<Rightarrow> world \<Rightarrow> int \<times> int \<times> world" where
  "getPosIntParam bl key defVal opts st =
     (case opts of
        None \<Rightarrow> (0, defVal, st)
      | Some dict \<Rightarrow>
          (case dict key of
             None \<Rightarrow> (0, defVal, st)
           | Some ob \<Rightarrow>
               (let (t, v, st') = nonneg_idxint bl ob defVal st
                in if \<not> t then (let (rc, st'') = printErr key st' in (rc, v, st''))
                   else (0, v, st'))))"

definition getOptFloatParam ::
  "build \<Rightarrow> string \<Rightarrow> real \<Rightarrow> pydict option \<Rightarrow> world \<Rightarrow> int \<times> real \<times> world" where
  "getOptFloatParam bl key defVal opts st =
     (case opts of
        None \<Rightarrow> (0, defVal, st)
      | Some dict \<Rightarrow>
          (case dict key of
             None \<Rightarrow> (0, defVal, st)
           | Some ob \<Rightarrow>
               if PyInt_Check bl ob
               then (let (r, st') = PyInt_AsLong ob st; v = real_of_int r
                     in if v < 0
                        then (-1, v, PySys_WriteStderr
                               (''ERROR: '' @ [CHR 0x27] @ key @ [CHR 0x27]
                                  @ '' ought to be a nonnegative float'' @ [CHR 0x0A]) st')
                        else (0, v, st'))
               else (case ob of
                       PyFloat v \<Rightarrow>
                         if \<not> (v \<ge> 0)
                         then (-1, v, PySys_WriteStderr
                                (''ERROR: '' @ [CHR 0x27] @ key @ [CHR 0x27]
                                   @ '' ought to be a nonnegative float'' @ [CHR 0x0A]) st)
                         else (0, v, st)
                     | _ \<Rightarrow>
                         (-1, defVal, PySys_WriteStderr
                                (''ERROR: '' @ [CHR 0x27] @ key @ [CHR 0x27]
                                   @ '' ought to be a nonnegative float'' @ [CHR 0x0A]) st))))"

text \<open>
  \<^verbatim>\<open>parseOpts(d, opts)\<close>: eight parameters in the source's order, returning at the
  first one that fails. The third test is \<^verbatim>\<open>if (getPosIntParam(...))\<close>, without
  \<^verbatim>\<open>< 0\<close>.
\<close>

definition parseOpts :: "build \<Rightarrow> Data \<Rightarrow> pydict option \<Rightarrow> world \<Rightarrow> int \<times> Data \<times> world" where
  "parseOpts bl d opts st =
     (let (rc1, v1, st1) = getPosIntParam bl ''MAX_ITERS'' 2500 opts st;
          d1 = d\<lparr>d_MAX_ITERS := v1\<rparr>
      in if rc1 < 0 then (-1, d1, st1) else
     (let (rc2, v2, st2) = getPosIntParam bl ''VERBOSE'' 1 opts st1;
          d2 = d1\<lparr>d_VERBOSE := v2\<rparr>
      in if rc2 < 0 then (-1, d2, st2) else
     (let (rc3, v3, st3) = getPosIntParam bl ''NORMALIZE'' 1 opts st2;
          d3 = d2\<lparr>d_NORMALIZE := v3\<rparr>
      in if rc3 \<noteq> 0 then (-1, d3, st3) else
     (let (rc4, v4, st4) = getOptFloatParam bl ''SCALE'' 5 opts st3;
          d4 = d3\<lparr>d_SCALE := v4\<rparr>
      in if rc4 < 0 then (-1, d4, st4) else
     (let (rc5, v5, st5) = getOptFloatParam bl ''EPS'' (1 / 1000) opts st4;
          d5 = d4\<lparr>d_EPS := v5\<rparr>
      in if rc5 < 0 then (-1, d5, st5) else
     (let (rc6, v6, st6) = getOptFloatParam bl ''CG_RATE'' 2 opts st5;
          d6 = d5\<lparr>d_CG_RATE := v6\<rparr>
      in if rc6 < 0 then (-1, d6, st6) else
     (let (rc7, v7, st7) = getOptFloatParam bl ''ALPHA'' (18 / 10) opts st6;
          d7 = d6\<lparr>d_ALPHA := v7\<rparr>
      in if rc7 < 0 then (-1, d7, st7) else
     (let (rc8, v8, st8) = getOptFloatParam bl ''RHO_X'' (1 / 1000) opts st7;
          d8 = d7\<lparr>d_RHO_X := v8\<rparr>
      in if rc8 < 0 then (-1, d8, st8) else (0, d8, st8)))))))))"

section \<open>Teardown\<close>

text \<open>
  \<^verbatim>\<open>freePyData(d, k, ps)\<close>: one guarded release after the other, in the source's order.
  The call is recorded in the state with the releases it performed.
\<close>

definition freePyData :: "Data option \<Rightarrow> Cone option \<Rightarrow> ScsPyData \<Rightarrow> world \<Rightarrow> world" where
  "freePyData d k ps st =
     st\<lparr>reaped := reaped st @
       [(if ps_Ax ps \<noteq> None then [Py_DECREF F_Ax] else []) @
        (if ps_Ai ps \<noteq> None then [Py_DECREF F_Ai] else []) @
        (if ps_Ap ps \<noteq> None then [Py_DECREF F_Ap] else []) @
        (if ps_b ps \<noteq> None then [Py_DECREF F_b] else []) @
        (if ps_c ps \<noteq> None then [Py_DECREF F_c] else []) @
        (if ps_x0 ps \<noteq> None then [Py_DECREF F_x0] else []) @
        (if ps_y0 ps \<noteq> None then [Py_DECREF F_y0] else []) @
        (if ps_s0 ps \<noteq> None then [Py_DECREF F_s0] else []) @
        (case k of
           None \<Rightarrow> []
         | Some kk \<Rightarrow>
             (if k_q kk \<noteq> None then [scs_free F_k_q] else []) @
             (if k_s kk \<noteq> None then [scs_free F_k_s] else []) @
             [scs_free F_k]) @
        (case d of
           None \<Rightarrow> []
         | Some dd \<Rightarrow>
             (if d_A dd \<noteq> None then [scs_free F_d_A] else []) @
             [scs_free F_d])]\<rparr>"

section \<open>The entry point\<close>

record infoDict =
  i_statusVal :: int
  i_iter :: int
  i_pobj :: real
  i_dobj :: real
  i_resPri :: real
  i_resDual :: real
  i_relGap :: real
  i_solveTime :: real
  i_setupTime :: real
  i_status :: string

record returnDict =
  r_x :: PyArrayObject
  r_y :: PyArrayObject
  r_s :: PyArrayObject
  r_info :: infoDict

text \<open>
  The native solver \<^verbatim>\<open>scs(d, k, &sol, &info)\<close> is not part of this file: it is a
  parameter, a function from what it is given to the solution and the diagnostics it
  leaves behind.
\<close>

type_synonym solver = "Data \<Rightarrow> Cone \<Rightarrow> Sol \<Rightarrow> Sol \<times> Info"

definition sizeof_idxint :: "build \<Rightarrow> nat" where
  "sizeof_idxint bl = (if DLONG bl then 8 else 4)"

text \<open>
  \<^verbatim>\<open>getIntType\<close> switches on \<^verbatim>\<open>sizeof(idxint)\<close>. In the LP64 data model numpy's
  \<^verbatim>\<open>NPY_INT8\<close>, \<^verbatim>\<open>NPY_INT16\<close>, \<^verbatim>\<open>NPY_INT32\<close> and \<^verbatim>\<open>NPY_INT64\<close> are other names
  of \<^verbatim>\<open>NPY_BYTE\<close>, \<^verbatim>\<open>NPY_SHORT\<close>, \<^verbatim>\<open>NPY_INT\<close> and \<^verbatim>\<open>NPY_LONG\<close>.
\<close>

definition getIntType :: "build \<Rightarrow> NPY_TYPES" where
  "getIntType bl =
     (if sizeof_idxint bl = 1 then NPY_BYTE
      else if sizeof_idxint bl = 2 then NPY_SHORT
      else if sizeof_idxint bl = 4 then NPY_INT
      else if sizeof_idxint bl = 8 then NPY_LONG
      else NPY_INT)"

definition getDoubleType :: NPY_TYPES where
  "getDoubleType = NPY_DOUBLE"

text \<open>
  \<^verbatim>\<open>getContiguous(array, typenum)\<close>: a new array object of the requested element
  type. The conversion of the elements themselves is not modelled.
\<close>

definition getContiguous :: "PyArrayObject \<Rightarrow> NPY_TYPES \<Rightarrow> PyArrayObject" where
  "getContiguous array typenum = array\<lparr>arr_type := typenum\<rparr>"

text \<open>
  Modelled from the spec: \<^verbatim>\<open>scs_calloc\<close> is a macro of the header \<^verbatim>\<open>glbopts.h\<close>,
  which is not part of this file; the spec (4.5) has it deliver a zero-filled buffer of
  the given length, as the C function \<^verbatim>\<open>calloc\<close> does.
  \<^verbatim>\<open>scs_calloc(l, sizeof(pfloat))\<close> is \<open>l\<close> zeros. The count is converted to the
  unsigned \<^verbatim>\<open>size_t\<close>, so a negative \<open>l\<close> asks for more than can be allocated and
  the result is the null pointer.
\<close>

definition scs_calloc_pfloat :: "int \<Rightarrow> real list option" where
  "scs_calloc_pfloat l = (if l < 0 then None else Some (replicate (nat l) 0))"

text \<open>
  \<^verbatim>\<open>getWarmStart(key, &x, &px0, l, warm)\<close>. \<open>px0\<close> is what \<^verbatim>\<open>*px0\<close> holds before
  the call; \<^verbatim>\<open>*x\<close> is overwritten first thing. \<open>pfloatType\<close> is the file-level
  variable of that name, which \<^verbatim>\<open>csolve\<close> sets.
  The source casts the dictionary entry to \<^verbatim>\<open>PyArrayObject *\<close> without a test and
  applies \<^verbatim>\<open>PyArray_ISFLOAT\<close>, \<^verbatim>\<open>PyArray_NDIM\<close> and \<^verbatim>\<open>PyArray_DIM\<close> to it. On an
  object that is no array these read fields that the object does not have: the
  behaviour is undefined.
\<close>

definition getWarmStart ::
  "NPY_TYPES \<Rightarrow> string \<Rightarrow> PyArrayObject option \<Rightarrow> int \<Rightarrow> pydict \<Rightarrow> world
     \<Rightarrow> fault + (int \<times> real list option \<times> PyArrayObject option \<times> world)" where
  "getWarmStart pfloatType key px0 l warm st =
     (let x = scs_calloc_pfloat l
      in case warm key of
           None \<Rightarrow> Inr (0, x, px0, st)
         | Some ob \<Rightarrow>
             (case ob of
                PyArray x0 \<Rightarrow>
                  if \<not> PyArray_ISFLOAT x0 \<or> PyArray_NDIM x0 \<noteq> 1 \<or> PyArray_DIM0 x0 \<noteq> l
                  then Inr (0, x, px0,
                         PySys_WriteStderr (''Error parsing warm-start input'' @ [CHR 0x0A]) st)
                  else (let p = getContiguous x0 pfloatType
                        in Inr (1, Some (arr_data p), Some p, st))
              | _ \<Rightarrow> Inl UndefinedBehaviour))"

definition finishWithErr ::
  "Data option \<Rightarrow> Cone option \<Rightarrow> ScsPyData \<Rightarrow> string \<Rightarrow> world \<Rightarrow> returnDict option \<times> world" where
  "finishWithErr d k ps str st = (None, freePyData d k ps (PyErr_SetString ValueError str st))"

definition PyArray_SimpleNewFromData ::
  "int \<Rightarrow> NPY_TYPES \<Rightarrow> real list option \<Rightarrow> PyArrayObject" where
  "PyArray_SimpleNewFromData veclen typenum buf =
     \<lparr> arr_type = typenum, arr_dims = [nat veclen],
       arr_data = (case buf of None \<Rightarrow> [] | Some v \<Rightarrow> v) \<rparr>"

text \<open>
  The format \<^verbatim>\<open>l\<close> of \<^verbatim>\<open>Py_BuildValue\<close> reads a C \<^verbatim>\<open>long\<close> from the variable
  arguments, and the source passes an \<^verbatim>\<open>idxint\<close>. Under \<^verbatim>\<open>DLONG\<close> that is a
  \<^verbatim>\<open>long\<close>. Otherwise it is a 32-bit \<^verbatim>\<open>int\<close>, and C does not define what the
  read of a \<^verbatim>\<open>long\<close> gives; on the LP64 platforms the model is about, the 64-bit read
  finds the value in the low half of the argument with the upper half clear, so that a
  negative value comes out as that value plus \<open>2 ^ 32\<close> (\<open>-2\<close> as \<open>4294967294\<close>).
\<close>

definition idxint_as_l :: "build \<Rightarrow> int \<Rightarrow> int" where
  "idxint_as_l bl v = (if DLONG bl then v else v mod 2 ^ 32)"

text \<open>
  \<^verbatim>\<open>csolve\<close> is embedded in four parts that follow each other in the source: the
  checks of the shape and of the arrays (lines 291 to 343), the cone and the options
  (lines 345 to 365), the warm start (lines 368 to 373), the solve and the packaging of
  the result (lines 374 to 416).
  The arguments are the values that \<^verbatim>\<open>PyArg_ParseTupleAndKeywords\<close> has unpacked; a
  failure of the unpacking itself happens before and is not modelled. \<open>opts\<close> and
  \<open>warm\<close> are the two pointers after unpacking, \<open>None\<close> for \<^verbatim>\<open>NULL\<close>; the source
  initialises only \<^verbatim>\<open>warm\<close>, so what \<^verbatim>\<open>opts\<close> holds when the caller leaves it out
  is not determined by the program, and the model takes the pointer as it is given.
  The two file-level variables \<^verbatim>\<open>intType\<close> and \<^verbatim>\<open>pfloatType\<close> are the values that
  \<^verbatim>\<open>csolve\<close> assigns to them.
  The result of a run is \<open>Inr\<close> of the returned object (\<open>None\<close> for \<^verbatim>\<open>NULL\<close>) and
  the state, or \<open>Inl\<close> of the fault that \<^verbatim>\<open>getWarmStart\<close> ran into.
\<close>

definition csolve_warm ::
  "Data \<Rightarrow> ScsPyData \<Rightarrow> pydict option \<Rightarrow> world \<Rightarrow> fault + (Data \<times> Sol \<times> ScsPyData \<times> world)" where
  "csolve_warm d ps warm st =
     (let sol = \<lparr> sol_x = None, sol_y = None, sol_s = None \<rparr>;
          d0 = d\<lparr>d_WARM_START := 0\<rparr>
      in case warm of
           None \<Rightarrow> Inr (d0, sol, ps, st)
         | Some w \<Rightarrow>
             (case getWarmStart getDoubleType ''x'' (ps_x0 ps) (d_n d0) w st of
                Inl f \<Rightarrow> Inl f
              | Inr (rx, x, px0, st1) \<Rightarrow>
                  (let d1 = d0\<lparr>d_WARM_START := rx\<rparr>
                   in case getWarmStart getDoubleType ''y'' (ps_y0 ps) (d_m d1) w st1 of
                        Inl f \<Rightarrow> Inl f
                      | Inr (ry, y, py0, st2) \<Rightarrow>
                          (let d2 = d1\<lparr>d_WARM_START := d_WARM_START d1 OR ry\<rparr>
                           in case getWarmStart getDoubleType ''s'' (ps_s0 ps) (d_m d2) w st2 of
                                Inl f \<Rightarrow> Inl f
                              | Inr (rs, s, ps0, st3) \<Rightarrow>
                                  (let d3 = d2\<lparr>d_WARM_START := d_WARM_START d2 OR rs\<rparr>
                                   in Inr (d3, \<lparr> sol_x = x, sol_y = y, sol_s = s \<rparr>,
                                           ps\<lparr>ps_x0 := px0, ps_y0 := py0, ps_s0 := ps0\<rparr>,
                                           st3))))))"

definition csolve_solve ::
  "build \<Rightarrow> solver \<Rightarrow> Data \<Rightarrow> Cone \<Rightarrow> ScsPyData \<Rightarrow> pydict option \<Rightarrow> world
     \<Rightarrow> fault + (returnDict option \<times> world)" where
  "csolve_solve bl scs d k ps warm st =
     (case csolve_warm d ps warm st of
        Inl f \<Rightarrow> Inl f
      | Inr (d3, sol3, ps3, st3) \<Rightarrow>
          (let (sol', info) = scs d3 k sol3;
               st4 = st3\<lparr>solved := solved st3 @ [(d3, k, sol3)]\<rparr>;
               x = PyArray_SimpleNewFromData (d_n d3) NPY_DOUBLE (sol_x sol');
               y = PyArray_SimpleNewFromData (d_m d3) NPY_DOUBLE (sol_y sol');
               s = PyArray_SimpleNewFromData (d_m d3) NPY_DOUBLE (sol_s sol');
               infoDict = \<lparr>
                 i_statusVal = idxint_as_l bl (to_idxint bl (info_statusVal info)),
                 i_iter = idxint_as_l bl (to_idxint bl (info_iter info)),
                 i_pobj = info_pobj info, i_dobj = info_dobj info,
                 i_resPri = info_resPri info, i_resDual = info_resDual info,
                 i_relGap = info_relGap info,
                 i_solveTime = info_solveTime info / 1000,
                 i_setupTime = info_setupTime info / 1000,
                 i_status = info_status info \<rparr>;
               returnDict = \<lparr> r_x = x, r_y = y, r_s = s, r_info = infoDict \<rparr>
           in Inr (Some returnDict, freePyData (Some d3) (Some k) ps3 st4)))"

definition csolve_cone ::
  "build \<Rightarrow> solver \<Rightarrow> Data \<Rightarrow> Cone \<Rightarrow> ScsPyData \<Rightarrow> pydict \<Rightarrow> pydict option
     \<Rightarrow> pydict option \<Rightarrow> world \<Rightarrow> fault + (returnDict option \<times> world)" where
  "csolve_cone bl scs d k ps cone opts warm st =
     (let (rc1, v1, st1) = getPosIntParam bl ''f'' 0 (Some cone) st;
          k1 = k\<lparr>k_f := v1\<rparr>
      in if rc1 < 0
         then Inr (finishWithErr (Some d) (Some k1) ps ''failed to parse cone field f'' st1) else
     (let (rc2, v2, st2) = getPosIntParam bl ''l'' 0 (Some cone) st1;
          k2 = k1\<lparr>k_l := v2\<rparr>
      in if rc2 < 0
         then Inr (finishWithErr (Some d) (Some k2) ps ''failed to parse cone field l'' st2) else
     (let (rc3, q, qsize, st3) = getConeArrDim bl ''q'' (k_q k2) (k_qsize k2) cone st2;
          k3 = k2\<lparr>k_q := q, k_qsize := qsize\<rparr>
      in if rc3 < 0
         then Inr (finishWithErr (Some d) (Some k3) ps ''failed to parse cone field q'' st3) else
     (let (rc4, s, ssize, st4) = getConeArrDim bl ''s'' (k_s k3) (k_ssize k3) cone st3;
          k4 = k3\<lparr>k_s := s, k_ssize := ssize\<rparr>
      in if rc4 < 0
         then Inr (finishWithErr (Some d) (Some k4) ps ''failed to parse cone field s'' st4) else
     (let (rc5, v5, st5) = getPosIntParam bl ''ep'' 0 (Some cone) st4;
          k5 = k4\<lparr>k_ep := v5\<rparr>
      in if rc5 < 0
         then Inr (finishWithErr (Some d) (Some k5) ps ''failed to parse cone field ep'' st5) else
     (let (rc6, v6, st6) = getPosIntParam bl ''ed'' 0 (Some cone) st5;
          k6 = k5\<lparr>k_ed := v6\<rparr>
      in if rc6 < 0
         then Inr (finishWithErr (Some d) (Some k6) ps ''failed to parse cone field ed'' st6) else
     (let (rc7, d7, st7) = parseOpts bl d opts st6
      in if rc7 < 0
         then Inr (finishWithErr (Some d7) (Some k6) ps ''failed to parse opts'' st7)
         else csolve_solve bl scs d7 k6 ps warm st7)))))))"

definition csolve ::
  "build \<Rightarrow> solver \<Rightarrow> int \<Rightarrow> int \<Rightarrow> PyArrayObject \<Rightarrow> PyArrayObject \<Rightarrow> PyArrayObject
     \<Rightarrow> PyArrayObject \<Rightarrow> PyArrayObject \<Rightarrow> pydict \<Rightarrow> pydict option \<Rightarrow> pydict option
     \<Rightarrow> world \<Rightarrow> fault + (returnDict option \<times> world)" where
  "csolve bl scs m n Ax Ai Ap b c cone opts warm st =
     (let ps = \<lparr> ps_Ax = None, ps_Ai = None, ps_Ap = None, ps_b = None, ps_c = None,
                 ps_x0 = None, ps_y0 = None, ps_s0 = None \<rparr>;
          d = calloc_Data\<lparr>d_m := m, d_n := n\<rparr>;
          k = calloc_Cone
      in if m < 0
         then Inr (None, PyErr_SetString ValueError ''m must be a positive integer'' st)
         else if n < 0
         then Inr (None, PyErr_SetString ValueError ''n must be a positive integer'' st)
         else
     (let intType = getIntType bl;
          pfloatType = getDoubleType
      in if \<not> PyArray_ISFLOAT Ax \<or> PyArray_NDIM Ax \<noteq> 1
         then Inr (finishWithErr (Some d) (Some k) ps ''Ax must be a numpy array of floats'' st)
         else if \<not> PyArray_ISINTEGER Ai \<or> PyArray_NDIM Ai \<noteq> 1
         then Inr (finishWithErr (Some d) (Some k) ps ''Ai must be a numpy array of ints'' st)
         else if \<not> PyArray_ISINTEGER Ap \<or> PyArray_NDIM Ap \<noteq> 1
         then Inr (finishWithErr (Some d) (Some k) ps ''Ap must be a numpy array of ints'' st)
         else
     (let cAx = getContiguous Ax pfloatType;
          cAi = getContiguous Ai intType;
          cAp = getContiguous Ap intType;
          ps1 = ps\<lparr>ps_Ax := Some cAx, ps_Ai := Some cAi, ps_Ap := Some cAp\<rparr>;
          A = \<lparr> A_x = arr_data cAx, A_i = arr_data cAi, A_p = arr_data cAp \<rparr>;
          d1 = d\<lparr>d_A := Some A\<rparr>
      in if \<not> PyArray_ISFLOAT c \<or> PyArray_NDIM c \<noteq> 1
         then Inr (finishWithErr (Some d1) (Some k) ps1
                ''c must be a dense numpy array with one dimension'' st)
         else if PyArray_DIM0 c \<noteq> d_n d1
         then Inr (finishWithErr (Some d1) (Some k) ps1 ''c has incompatible dimension with A'' st)
         else
     (let cc = getContiguous c pfloatType;
          ps2 = ps1\<lparr>ps_c := Some cc\<rparr>;
          d2 = d1\<lparr>d_c := Some (arr_data cc)\<rparr>
      in if \<not> PyArray_ISFLOAT b \<or> PyArray_NDIM b \<noteq> 1
         then Inr (finishWithErr (Some d2) (Some k) ps2
                ''b must be a dense numpy array with one dimension'' st)
         else if PyArray_DIM0 b \<noteq> d_m d2
         then Inr (finishWithErr (Some d2) (Some k) ps2 ''b has incompatible dimension with A'' st)
         else
     (let cb = getContiguous b pfloatType;
          ps3 = ps2\<lparr>ps_b := Some cb\<rparr>;
          d3 = d2\<lparr>d_b := Some (arr_data cb)\<rparr>
      in csolve_cone bl scs d3 k ps3 cone opts warm st)))))"

section \<open>Notions used in the statements\<close>

text \<open>The state before a call: nothing pending, nothing written, nothing released.\<close>

definition world0 :: world where
  "world0 = \<lparr> pyerr = None, stderr = [], reaped = [], solved = [] \<rparr>"

text \<open>
  A Python integer is an object that passes one of the two type tests; its value is
  the mathematical one (\<open>True\<close> is 1, as in Python).
\<close>

definition is_integer :: "build \<Rightarrow> pyobj \<Rightarrow> bool" where
  "is_integer bl ob = (PyInt_Check bl ob \<or> PyLong_Check bl ob)"

definition int_value :: "pyobj \<Rightarrow> int" where
  "int_value ob =
     (case ob of PyLong v \<Rightarrow> v | PyInt v \<Rightarrow> v | PyBool t \<Rightarrow> (if t then 1 else 0) | _ \<Rightarrow> 0)"

text \<open>A nonnegative integer that the type \<^verbatim>\<open>idxint\<close> can hold.\<close>

definition idx_ok :: "build \<Rightarrow> pyobj \<Rightarrow> bool" where
  "idx_ok bl ob = (is_integer bl ob \<and> 0 \<le> int_value ob \<and> int_value ob \<le> IDXINT_MAX bl)"

text \<open>
  No integer at all, or a negative integer that is not below the range of a 32-bit
  \<^verbatim>\<open>idxint\<close> (under \<^verbatim>\<open>DLONG\<close>: any negative integer).
\<close>

definition idx_bad :: "build \<Rightarrow> pyobj \<Rightarrow> bool" where
  "idx_bad bl ob =
     (\<not> is_integer bl ob \<or> (int_value ob < 0 \<and> (DLONG bl \<or> - (2 ^ 31) \<le> int_value ob)))"

definition parse_error_text :: "string \<Rightarrow> string" where
  "parse_error_text key = ''error parsing '' @ [CHR 0x27] @ key @ [CHR 0x27]"

text \<open>A key that an optional mapping does not give: the mapping is absent, or lacks the key.\<close>

definition opt_missing :: "pydict option \<Rightarrow> string \<Rightarrow> bool" where
  "opt_missing opts key = (case opts of None \<Rightarrow> True | Some dict \<Rightarrow> dict key = None)"

text \<open>The C \<^verbatim>\<open>long\<close> that \<^verbatim>\<open>PyLong_AsLong\<close> returns for an object, in any state.\<close>

definition long_value :: "pyobj \<Rightarrow> int" where
  "long_value ob = fst (PyLong_AsLong ob world0)"

text \<open>
  An option that does not stop \<^verbatim>\<open>parseOpts\<close>: its getter returns 0. The return code
  depends neither on the default nor on the state (lemmas \<open>getPosIntParam_rc\<close> and
  \<open>getOptFloatParam_rc\<close>).
\<close>

definition int_opt_ok :: "build \<Rightarrow> pydict option \<Rightarrow> string \<Rightarrow> bool" where
  "int_opt_ok bl opts key = (fst (getPosIntParam bl key 0 opts world0) = 0)"

definition float_opt_ok :: "build \<Rightarrow> pydict option \<Rightarrow> string \<Rightarrow> bool" where
  "float_opt_ok bl opts key = (fst (getOptFloatParam bl key 0 opts world0) = 0)"

text \<open>
  When a field counts as set for the teardown, and the release that belongs to it:
  the reference count of a coerced buffer is decremented, a native allocation is freed.
  The arrays of the cone and the matrix wrapper can only be set inside a structure
  that is there.
\<close>

fun field_set :: "Data option \<Rightarrow> Cone option \<Rightarrow> ScsPyData \<Rightarrow> field \<Rightarrow> bool" where
  "field_set d k ps F_Ax = (ps_Ax ps \<noteq> None)"
| "field_set d k ps F_Ai = (ps_Ai ps \<noteq> None)"
| "field_set d k ps F_Ap = (ps_Ap ps \<noteq> None)"
| "field_set d k ps F_b = (ps_b ps \<noteq> None)"
| "field_set d k ps F_c = (ps_c ps \<noteq> None)"
| "field_set d k ps F_x0 = (ps_x0 ps \<noteq> None)"
| "field_set d k ps F_y0 = (ps_y0 ps \<noteq> None)"
| "field_set d k ps F_s0 = (ps_s0 ps \<noteq> None)"
| "field_set d k ps F_k_q = (case k of None \<Rightarrow> False | Some kk \<Rightarrow> k_q kk \<noteq> None)"
| "field_set d k ps F_k_s = (case k of None \<Rightarrow> False | Some kk \<Rightarrow> k_s kk \<noteq> None)"
| "field_set d k ps F_k = (k \<noteq> None)"
| "field_set d k ps F_d_A = (case d of None \<Rightarrow> False | Some dd \<Rightarrow> d_A dd \<noteq> None)"
| "field_set d k ps F_d = (d \<noteq> None)"

fun release_of :: "field \<Rightarrow> release" where
  "release_of F_k_q = scs_free F_k_q"
| "release_of F_k_s = scs_free F_k_s"
| "release_of F_k = scs_free F_k"
| "release_of F_d_A = scs_free F_d_A"
| "release_of F_d = scs_free F_d"
| "release_of f = Py_DECREF f"

text \<open>
  The fields in the order in which the teardown visits them, and a list of releases
  each behind its guard.
\<close>

definition all_fields :: "field list" where
  "all_fields = [F_Ax, F_Ai, F_Ap, F_b, F_c, F_x0, F_y0, F_s0, F_k_q, F_k_s, F_k, F_d_A, F_d]"

fun guarded :: "(bool \<times> 'a) list \<Rightarrow> 'a list" where
  "guarded [] = []"
| "guarded ((c, a) # rest) = (if c then [a] else []) @ guarded rest"

text \<open>A one-dimensional array of floating-point, or of integer, elements.\<close>

definition float_vector :: "PyArrayObject \<Rightarrow> bool" where
  "float_vector a = (PyArray_ISFLOAT a \<and> PyArray_NDIM a = 1)"

definition int_vector :: "PyArrayObject \<Rightarrow> bool" where
  "int_vector a = (PyArray_ISINTEGER a \<and> PyArray_NDIM a = 1)"

text \<open>
  A warm-start entry that is there and is a one-dimensional floating-point array of
  the expected length; and a key whose entry, if there is one, is an array of any kind.
\<close>

definition warm_valid :: "string \<Rightarrow> int \<Rightarrow> pydict \<Rightarrow> bool" where
  "warm_valid key l w =
     (case w key of
        Some (PyArray a) \<Rightarrow> float_vector a \<and> PyArray_DIM0 a = l
      | _ \<Rightarrow> False)"

definition warm_array_or_absent :: "string \<Rightarrow> pydict \<Rightarrow> bool" where
  "warm_array_or_absent key w =
     (case w key of None \<Rightarrow> True | Some (PyArray a) \<Rightarrow> True | _ \<Rightarrow> False)"

text \<open>The messages that \<^verbatim>\<open>csolve\<close> passes to \<^verbatim>\<open>PyErr_SetString\<close>.\<close>

definition csolve_messages :: "string list" where
  "csolve_messages =
     [''m must be a positive integer'', ''n must be a positive integer'',
      ''Ax must be a numpy array of floats'', ''Ai must be a numpy array of ints'',
      ''Ap must be a numpy array of ints'',
      ''c must be a dense numpy array with one dimension'',
      ''c has incompatible dimension with A'',
      ''b must be a dense numpy array with one dimension'',
      ''b has incompatible dimension with A'',
      ''failed to parse cone field f'', ''failed to parse cone field l'',
      ''failed to parse cone field q'', ''failed to parse cone field s'',
      ''failed to parse cone field ep'', ''failed to parse cone field ed'',
      ''failed to parse opts'']"

text \<open>Sample inputs for the concrete instances: a vector, and a solver stand-in.\<close>

definition vec :: "NPY_TYPES \<Rightarrow> real list \<Rightarrow> PyArrayObject" where
  "vec t xs = \<lparr> arr_type = t, arr_dims = [length xs], arr_data = xs \<rparr>"

definition sample_scs :: solver where
  "sample_scs d k sol =
     (\<lparr> sol_x = Some (replicate (nat (d_n d)) 0), sol_y = Some (replicate (nat (d_m d)) 0),
        sol_s = Some (replicate (nat (d_m d)) 0) \<rparr>,
      \<lparr> info_statusVal = 1, info_iter = 20, info_pobj = 0, info_dobj = 0, info_resPri = 0,
        info_resDual = 0, info_relGap = 0, info_solveTime = 1500, info_setupTime = 250,
        info_status = ''Solved'' \<rparr>)"

text \<open>
  The call aborts: it returns \<^verbatim>\<open>NULL\<close> with \<open>ValueError\<close> pending, and the message
  begins with the name of the argument.
\<close>

definition aborts_naming ::
  "fault + (returnDict option \<times> world) \<Rightarrow> string \<Rightarrow> string \<Rightarrow> bool" where
  "aborts_naming res arg msg =
     ((\<exists>st'. res = Inr (None, st') \<and> pyerr st' = Some (ValueError, msg)) \<and>
      take (length arg + 1) msg = arg @ '' '')"

text \<open>A step that neither calls the teardown nor the solver.\<close>

definition quiet :: "world \<Rightarrow> world \<Rightarrow> bool" where
  "quiet st st' = (reaped st' = reaped st \<and> solved st' = solved st)"

text \<open>
  The two checking parts of \<^verbatim>\<open>csolve\<close> once more, as functions that say where the
  call goes next: to \<^verbatim>\<open>finishWithErr\<close> with these arguments (\<open>Inl\<close>), or on (\<open>Inr\<close>).
  They serve the proofs; \<open>csolve_as_stages\<close> below proves that \<open>csolve\<close> is their
  composition.
\<close>

definition array_stage ::
  "build \<Rightarrow> int \<Rightarrow> int \<Rightarrow> PyArrayObject \<Rightarrow> PyArrayObject \<Rightarrow> PyArrayObject
     \<Rightarrow> PyArrayObject \<Rightarrow> PyArrayObject
     \<Rightarrow> (Data \<times> ScsPyData \<times> string) + (Data \<times> ScsPyData)" where
  "array_stage bl m n Ax Ai Ap b c =
     (let ps = \<lparr> ps_Ax = None, ps_Ai = None, ps_Ap = None, ps_b = None, ps_c = None,
                 ps_x0 = None, ps_y0 = None, ps_s0 = None \<rparr>;
          d = calloc_Data\<lparr>d_m := m, d_n := n\<rparr>;
          ps1 = ps\<lparr>ps_Ax := Some (getContiguous Ax getDoubleType),
                   ps_Ai := Some (getContiguous Ai (getIntType bl)),
                   ps_Ap := Some (getContiguous Ap (getIntType bl))\<rparr>;
          d1 = d\<lparr>d_A := Some \<lparr> A_x = arr_data Ax, A_i = arr_data Ai, A_p = arr_data Ap \<rparr>\<rparr>;
          ps2 = ps1\<lparr>ps_c := Some (getContiguous c getDoubleType)\<rparr>;
          d2 = d1\<lparr>d_c := Some (arr_data c)\<rparr>;
          ps3 = ps2\<lparr>ps_b := Some (getContiguous b getDoubleType)\<rparr>;
          d3 = d2\<lparr>d_b := Some (arr_data b)\<rparr>
      in if \<not> float_vector Ax then Inl (d, ps, ''Ax must be a numpy array of floats'')
         else if \<not> int_vector Ai then Inl (d, ps, ''Ai must be a numpy array of ints'')
         else if \<not> int_vector Ap then Inl (d, ps, ''Ap must be a numpy array of ints'')
         else if \<not> float_vector c
         then Inl (d1, ps1, ''c must be a dense numpy array with one dimension'')
         else if PyArray_DIM0 c \<noteq> n
         then Inl (d1, ps1, ''c has incompatible dimension with A'')
         else if \<not> float_vector b
         then Inl (d2, ps2, ''b must be a dense numpy array with one dimension'')
         else if PyArray_DIM0 b \<noteq> m
         then Inl (d2, ps2, ''b has incompatible dimension with A'')
         else Inr (d3, ps3))"

definition cone_stage ::
  "build \<Rightarrow> Data \<Rightarrow> Cone \<Rightarrow> pydict \<Rightarrow> pydict option \<Rightarrow> world
     \<Rightarrow> (Data \<times> Cone \<times> string \<times> world) + (Data \<times> Cone \<times> world)" where
  "cone_stage bl d k cone opts st =
     (let (rc1, v1, st1) = getPosIntParam bl ''f'' 0 (Some cone) st;
          k1 = k\<lparr>k_f := v1\<rparr>
      in if rc1 < 0 then Inl (d, k1, ''failed to parse cone field f'', st1) else
     (let (rc2, v2, st2) = getPosIntParam bl ''l'' 0 (Some cone) st1;
          k2 = k1\<lparr>k_l := v2\<rparr>
      in if rc2 < 0 then Inl (d, k2, ''failed to parse cone field l'', st2) else
     (let (rc3, q, qsize, st3) = getConeArrDim bl ''q'' (k_q k2) (k_qsize k2) cone st2;
          k3 = k2\<lparr>k_q := q, k_qsize := qsize\<rparr>
      in if rc3 < 0 then Inl (d, k3, ''failed to parse cone field q'', st3) else
     (let (rc4, s, ssize, st4) = getConeArrDim bl ''s'' (k_s k3) (k_ssize k3) cone st3;
          k4 = k3\<lparr>k_s := s, k_ssize := ssize\<rparr>
      in if rc4 < 0 then Inl (d, k4, ''failed to parse cone field s'', st4) else
     (let (rc5, v5, st5) = getPosIntParam bl ''ep'' 0 (Some cone) st4;
          k5 = k4\<lparr>k_ep := v5\<rparr>
      in if rc5 < 0 then Inl (d, k5, ''failed to parse cone field ep'', st5) else
     (let (rc6, v6, st6) = getPosIntParam bl ''ed'' 0 (Some cone) st5;
          k6 = k5\<lparr>k_ed := v6\<rparr>
      in if rc6 < 0 then Inl (d, k6, ''failed to parse cone field ed'', st6) else
     (let (rc7, d7, st7) = parseOpts bl d opts st6
      in if rc7 < 0 then Inl (d7, k6, ''failed to parse opts'', st7)
         else Inr (d7, k6, st7))))))))"

section \<open>The integer test\<close>

lemma nonneg_idxint_not_integer:
  "\<not> is_integer bl ob \<Longrightarrow> nonneg_idxint bl ob v st = (False, v, st)"
  by (simp add: nonneg_idxint_def is_integer_def)

lemma to_idxint_in_range:
  "- IDXINT_MAX bl - 1 \<le> r \<Longrightarrow> r \<le> IDXINT_MAX bl \<Longrightarrow> to_idxint bl r = r"
  by (auto simp add: to_idxint_def IDXINT_MAX_def split: if_splits)

lemma PyLong_AsLong_in_range:
  "is_integer bl ob \<Longrightarrow> LONG_MIN \<le> int_value ob \<Longrightarrow> int_value ob \<le> LONG_MAX \<Longrightarrow>
     PyLong_AsLong ob st = (int_value ob, st)"
  by (cases ob) (auto simp add: PyLong_AsLong_def long_result_def is_integer_def int_value_def
       PyInt_Check_def PyLong_Check_def LONG_MIN_def LONG_MAX_def split: if_splits)

lemma nonneg_idxint_in_range:
  assumes "is_integer bl ob" "- IDXINT_MAX bl - 1 \<le> int_value ob" "int_value ob \<le> IDXINT_MAX bl"
  shows "nonneg_idxint bl ob v st = (0 \<le> int_value ob, int_value ob, st)"
proof -
  have r: "LONG_MIN \<le> int_value ob" "int_value ob \<le> LONG_MAX"
    using assms(2,3) by (auto simp add: IDXINT_MAX_def LONG_MIN_def LONG_MAX_def split: if_splits)
  have a: "PyLong_AsLong ob s = (int_value ob, s)" for s
    using PyLong_AsLong_in_range [OF assms(1) r] .
  have t: "to_idxint bl (int_value ob) = int_value ob"
    using to_idxint_in_range [OF assms(2,3)] .
  show ?thesis
    using assms(1) by (auto simp add: nonneg_idxint_def PyInt_AsLong_def a t is_integer_def Let_def)
qed

lemma nonneg_idxint_ok:
  "idx_ok bl ob \<Longrightarrow> nonneg_idxint bl ob v st = (True, int_value ob, st)"
  using nonneg_idxint_in_range [of bl ob v st] by (simp add: idx_ok_def)

lemma PyLong_AsLong_negative:
  "is_integer bl ob \<Longrightarrow> int_value ob < 0 \<Longrightarrow>
     fst (PyLong_AsLong ob st) < 0 \<and>
     (- (2 ^ 31) \<le> int_value ob \<longrightarrow> fst (PyLong_AsLong ob st) = int_value ob)"
  by (cases ob) (auto simp add: PyLong_AsLong_def long_result_def is_integer_def int_value_def
       PyInt_Check_def PyLong_Check_def LONG_MIN_def LONG_MAX_def split: if_splits)

lemma to_idxint_negative:
  "r < 0 \<Longrightarrow> DLONG bl \<or> - (2 ^ 31) \<le> r \<Longrightarrow> to_idxint bl r < 0"
  by (auto simp add: to_idxint_def)

lemma nonneg_idxint_bad:
  assumes "idx_bad bl ob"
  shows "\<not> fst (nonneg_idxint bl ob v st)"
proof (cases "is_integer bl ob")
  case False
  then show ?thesis by (simp add: nonneg_idxint_not_integer)
next
  case True
  with assms have neg: "int_value ob < 0" and rng: "DLONG bl \<or> - (2 ^ 31) \<le> int_value ob"
    by (auto simp add: idx_bad_def)
  have "to_idxint bl (fst (PyLong_AsLong ob s)) < 0" for s
  proof (cases "DLONG bl")
    case True
    then show ?thesis
      using PyLong_AsLong_negative [OF \<open>is_integer bl ob\<close> neg, of s]
      by (simp add: to_idxint_def)
  next
    case False
    with rng have "- (2 ^ 31) \<le> int_value ob" by simp
    then show ?thesis
      using PyLong_AsLong_negative [OF \<open>is_integer bl ob\<close> neg, of s] neg
      by (simp add: to_idxint_negative)
  qed
  then have "\<not> 0 \<le> to_idxint bl (fst (PyLong_AsLong ob s))" for s
    by (simp add: not_le)
  then show ?thesis
    by (simp add: nonneg_idxint_def PyInt_AsLong_def Let_def split: prod.splits)
       (metis fst_conv)
qed

lemma PyLong_AsLong_stderr: "PyLong_AsLong ob st = (r, st') \<Longrightarrow> stderr st' = stderr st"
  by (auto simp add: PyLong_AsLong_def long_result_def PyErr_SetString_def split: pyobj.splits if_splits)

lemma nonneg_idxint_stderr: "stderr (snd (snd (nonneg_idxint bl ob v st))) = stderr st"
  by (auto simp add: nonneg_idxint_def PyInt_AsLong_def Let_def split: prod.splits dest!: PyLong_AsLong_stderr)

lemma loop_ok:
  "\<forall>x\<in>set items. idx_ok bl x \<Longrightarrow> i + length items \<le> length q \<Longrightarrow>
     getConeArrDim_loop bl items i q st =
       (True, take i q @ map int_value items @ drop (i + length items) q, st)"
proof (induction items arbitrary: i q)
  case Nil
  then show ?case by simp
next
  case (Cons x xs)
  have a: "nonneg_idxint bl x (q ! i) st = (True, int_value x, st)"
    using Cons.prems(1) by (simp add: nonneg_idxint_ok)
  have b: "getConeArrDim_loop bl xs (Suc i) (q[i := int_value x]) st =
      (True, take (Suc i) (q[i := int_value x]) @ map int_value xs
              @ drop (Suc i + length xs) (q[i := int_value x]), st)"
    using Cons.prems by (intro Cons.IH) auto
  have c: "take (Suc i) (q[i := int_value x]) = take i q @ [int_value x]"
    using Cons.prems(2) by (simp add: take_Suc_conv_app_nth)
  show ?case using Cons.prems(2) by (simp add: a b c)
qed

lemma loop_stderr:
  "stderr (snd (snd (getConeArrDim_loop bl items i q st))) = stderr st"
proof (induction items arbitrary: i q st)
  case Nil
  then show ?case by simp
next
  case (Cons x xs)
  show ?case
    using nonneg_idxint_stderr [of bl x "q ! i" st]
    by (auto simp add: Cons.IH split: prod.splits)
qed

lemma loop_bad:
  "\<exists>x\<in>set items. idx_bad bl x \<Longrightarrow> \<not> fst (getConeArrDim_loop bl items i q st)"
proof (induction items arbitrary: i q st)
  case Nil
  then show ?case by simp
next
  case (Cons y ys)
  obtain t v st' where r: "nonneg_idxint bl y (q ! i) st = (t, v, st')"
    by (cases "nonneg_idxint bl y (q ! i) st") auto
  show ?case
  proof (cases t)
    case False
    with r show ?thesis by simp
  next
    case True
    with r have "\<not> idx_bad bl y"
      using nonneg_idxint_bad [of bl y "q ! i" st] by auto
    with Cons.prems have "\<exists>x\<in>set ys. idx_bad bl x" by auto
    then have "\<not> fst (getConeArrDim_loop bl ys (Suc i) (q[i := v]) st')"
      by (rule Cons.IH)
    with r True show ?thesis by simp
  qed
qed

lemma getConeArrDim_rejects:
  assumes "cone key = Some (PyList items)" "\<exists>x\<in>set items. idx_bad bl x"
  shows "\<exists>st'. getConeArrDim bl key varr vsize cone st = (-1, varr, vsize, st') \<and>
           stderr st' = stderr st @ [parse_error_text key]"
proof -
  obtain t q st1 where r: "getConeArrDim_loop bl items 0 (replicate (length items) 0) st = (t, q, st1)"
    by (cases "getConeArrDim_loop bl items 0 (replicate (length items) 0) st") auto
  have "\<not> t" using loop_bad [OF assms(2), of 0 "replicate (length items) 0" st] r by simp
  moreover have "stderr st1 = stderr st"
    using loop_stderr [of bl items 0 "replicate (length items) 0" st] r by simp
  ultimately show ?thesis
    using assms(1) r
    by (simp add: getConeArrDim_def printErr_def PySys_WriteStderr_def Let_def parse_error_text_def)
qed

lemma getConeArrDim_list_ok:
  assumes "cone key = Some (PyList items)" "\<forall>x\<in>set items. idx_ok bl x"
  shows "getConeArrDim bl key varr vsize cone st = (0, Some (map int_value items), int (length items), st)"
  using assms(1) loop_ok [OF assms(2), of 0 "replicate (length items) 0" st]
  by (simp add: getConeArrDim_def Let_def)

lemma getConeArrDim_scalar_ok:
  assumes "cone key = Some ob" "idx_ok bl ob"
  shows "getConeArrDim bl key varr vsize cone st = (0, Some [int_value ob], 1, st)"
  using assms nonneg_idxint_ok [OF assms(2), of 0 st]
  by (cases ob) (auto simp add: getConeArrDim_def Let_def idx_ok_def is_integer_def PyInt_Check_def PyLong_Check_def split: if_splits)

lemma getConeArrDim_other:
  assumes "cone key = Some ob" "\<not> is_integer bl ob" "\<forall>items. ob \<noteq> PyList items"
  shows "getConeArrDim bl key varr vsize cone st =
           (-1, varr, vsize, PySys_WriteStderr (parse_error_text key) st)"
  using assms
  by (cases ob) (auto simp add: getConeArrDim_def Let_def is_integer_def printErr_def parse_error_text_def)


lemma getConeArrDim_absent:
  "cone key = None \<Longrightarrow> getConeArrDim bl key varr vsize cone st = (0, None, 0, st)"
  by (simp add: getConeArrDim_def)

section \<open>Cone arrays\<close>

text \<open>
  Claim C2 says that a list under \<open>q\<close> or \<open>s\<close> with an element that is not a
  nonnegative integer, any negative integer included, makes \<^verbatim>\<open>getConeArrDim\<close> fail.
  The lemma \<open>getConeArrDim_rejects\<close> above shows this for every element that is no
  integer and for every negative integer from \<open>- 2 ^ 31\<close> on (under \<^verbatim>\<open>DLONG\<close>: for every
  negative integer), with the two output locations left as they were, which in
  \<^verbatim>\<open>csolve\<close> is the null pointer and the size 0 of the zero-initialised cone. The claim fails
  below that range in the build without \<^verbatim>\<open>DLONG\<close>: the source narrows the C \<^verbatim>\<open>long\<close>
  to the 32-bit \<^verbatim>\<open>idxint\<close> before it compares with 0, so the list \<open>[-4294967296]\<close> is
  accepted and comes back as the array \<open>[0]\<close> of size 1, with nothing written to standard
  error.
\<close>

theorem getConeArrDim_accepts_wrapped_negative:
  "getConeArrDim \<lparr> PY_MAJOR_VERSION = 3, DLONG = False \<rparr> ''q'' None 0
     [''q'' \<mapsto> PyList [PyLong (- 4294967296)]] world0 = (0, Some [0], 1, world0)"
  by (simp add: getConeArrDim_def nonneg_idxint_def PyInt_Check_def PyLong_Check_def
      PyInt_AsLong_def PyLong_AsLong_def long_result_def LONG_MIN_def LONG_MAX_def
      to_idxint_def Let_def)

theorem getConeArrDim_accepts_wrapped_negative_witness:
  "fst (getConeArrDim \<lparr> PY_MAJOR_VERSION = 3, DLONG = False \<rparr> ''q'' None 0
          [''q'' \<mapsto> PyList [PyLong (- 4294967296)]] world0) = 0 \<and>
   fst (snd (getConeArrDim \<lparr> PY_MAJOR_VERSION = 3, DLONG = False \<rparr> ''q'' None 0
          [''q'' \<mapsto> PyList [PyLong (- 4294967296)]] world0)) = Some [0] \<and>
   stderr (snd (snd (snd (getConeArrDim \<lparr> PY_MAJOR_VERSION = 3, DLONG = False \<rparr> ''q'' None 0
          [''q'' \<mapsto> PyList [PyLong (- 4294967296)]] world0)))) = []"
  using getConeArrDim_accepts_wrapped_negative
  by (simp add: world0_def)

text \<open>
  Claim C3, as amended: for every cone mapping, \<^verbatim>\<open>getConeArrDim\<close> returns the null
  array and size 0 when the key is absent; when the value is a list whose elements are
  all integers between 0 and the largest \<^verbatim>\<open>idxint\<close> it succeeds with the array of those
  values and the length of the list; when the value is one such integer it succeeds with
  the one-element array; and a value that is neither a list nor an integer fails with
  return code \<open>-1\<close> and the line naming the key on standard error, the two output
  locations left as they were.
\<close>

theorem getConeArrDim_cases:
  "(cone key = None \<longrightarrow> getConeArrDim bl key varr vsize cone st = (0, None, 0, st)) \<and>
   (\<forall>items. cone key = Some (PyList items) \<and> (\<forall>x\<in>set items. idx_ok bl x) \<longrightarrow>
      getConeArrDim bl key varr vsize cone st =
        (0, Some (map int_value items), int (length items), st)) \<and>
   (\<forall>ob. cone key = Some ob \<and> idx_ok bl ob \<longrightarrow>
      getConeArrDim bl key varr vsize cone st = (0, Some [int_value ob], 1, st)) \<and>
   (\<forall>ob. cone key = Some ob \<and> \<not> is_integer bl ob \<and> (\<forall>items. ob \<noteq> PyList items) \<longrightarrow>
      getConeArrDim bl key varr vsize cone st =
        (-1, varr, vsize, PySys_WriteStderr (parse_error_text key) st))"
  by (intro conjI allI impI; (elim conjE)?)
     (simp_all add: getConeArrDim_absent getConeArrDim_list_ok getConeArrDim_scalar_ok
        getConeArrDim_other)

theorem getConeArrDim_cases_witness:
  "getConeArrDim \<lparr> PY_MAJOR_VERSION = 3, DLONG = False \<rparr> ''q'' None 0
     [''l'' \<mapsto> PyLong 3] world0 = (0, None, 0, world0) \<and>
   getConeArrDim \<lparr> PY_MAJOR_VERSION = 3, DLONG = False \<rparr> ''q'' None 0
     [''q'' \<mapsto> PyList [PyLong 3, PyLong 4]] world0 = (0, Some [3, 4], 2, world0) \<and>
   getConeArrDim \<lparr> PY_MAJOR_VERSION = 3, DLONG = False \<rparr> ''q'' None 0
     [''q'' \<mapsto> PyLong 7] world0 = (0, Some [7], 1, world0) \<and>
   getConeArrDim \<lparr> PY_MAJOR_VERSION = 3, DLONG = False \<rparr> ''q'' None 0
     [''q'' \<mapsto> PyString ''3''] world0 =
       (-1, None, 0, PySys_WriteStderr (parse_error_text ''q'') world0)"
proof (intro conjI)
  show "getConeArrDim \<lparr> PY_MAJOR_VERSION = 3, DLONG = False \<rparr> ''q'' None 0
     [''l'' \<mapsto> PyLong 3] world0 = (0, None, 0, world0)"
    using getConeArrDim_cases [where cone = "[''l'' \<mapsto> PyLong 3]" and key = "''q''"
        and bl = "\<lparr> PY_MAJOR_VERSION = 3, DLONG = False \<rparr>" and varr = None and vsize = 0
        and st = world0]
    by simp
  show "getConeArrDim \<lparr> PY_MAJOR_VERSION = 3, DLONG = False \<rparr> ''q'' None 0
     [''q'' \<mapsto> PyList [PyLong 3, PyLong 4]] world0 = (0, Some [3, 4], 2, world0)"
    using getConeArrDim_cases [where cone = "[''q'' \<mapsto> PyList [PyLong 3, PyLong 4]]"
        and key = "''q''" and bl = "\<lparr> PY_MAJOR_VERSION = 3, DLONG = False \<rparr>"
        and varr = None and vsize = 0 and st = world0]
    by (simp add: idx_ok_def is_integer_def PyInt_Check_def PyLong_Check_def int_value_def
        IDXINT_MAX_def)
  show "getConeArrDim \<lparr> PY_MAJOR_VERSION = 3, DLONG = False \<rparr> ''q'' None 0
     [''q'' \<mapsto> PyLong 7] world0 = (0, Some [7], 1, world0)"
    using getConeArrDim_cases [where cone = "[''q'' \<mapsto> PyLong 7]"
        and key = "''q''" and bl = "\<lparr> PY_MAJOR_VERSION = 3, DLONG = False \<rparr>"
        and varr = None and vsize = 0 and st = world0]
    by (simp add: idx_ok_def is_integer_def PyInt_Check_def PyLong_Check_def int_value_def
        IDXINT_MAX_def)
  show "getConeArrDim \<lparr> PY_MAJOR_VERSION = 3, DLONG = False \<rparr> ''q'' None 0
     [''q'' \<mapsto> PyString ''3''] world0 =
       (-1, None, 0, PySys_WriteStderr (parse_error_text ''q'') world0)"
    using getConeArrDim_cases [where cone = "[''q'' \<mapsto> PyString ''3'']"
        and key = "''q''" and bl = "\<lparr> PY_MAJOR_VERSION = 3, DLONG = False \<rparr>"
        and varr = None and vsize = 0 and st = world0]
    by (simp add: is_integer_def PyInt_Check_def PyLong_Check_def)
qed

text \<open>
  The claim as it was written fails in two ways. A tuple is a sequence, and the source
  tests for a list only; and \<open>2 ^ 63\<close> is a nonnegative integer that no C \<^verbatim>\<open>long\<close>
  holds, so \<^verbatim>\<open>PyLong_AsLong\<close> answers \<open>-1\<close> and the list is rejected, even where
  \<^verbatim>\<open>idxint\<close> has 64 bits.
\<close>

theorem getConeArrDim_sequence_counterexample:
  "is_integer \<lparr> PY_MAJOR_VERSION = 3, DLONG = True \<rparr> (PyLong 1) \<and>
   0 \<le> int_value (PyLong 1) \<and>
   is_integer \<lparr> PY_MAJOR_VERSION = 3, DLONG = True \<rparr> (PyLong 2) \<and>
   0 \<le> int_value (PyLong 2) \<and>
   fst (getConeArrDim \<lparr> PY_MAJOR_VERSION = 3, DLONG = True \<rparr> ''q'' None 0
          [''q'' \<mapsto> PyTuple [PyLong 1, PyLong 2]] world0) = -1 \<and>
   is_integer \<lparr> PY_MAJOR_VERSION = 3, DLONG = True \<rparr> (PyLong 9223372036854775808) \<and>
   0 \<le> int_value (PyLong 9223372036854775808) \<and>
   fst (getConeArrDim \<lparr> PY_MAJOR_VERSION = 3, DLONG = True \<rparr> ''q'' None 0
          [''q'' \<mapsto> PyList [PyLong 9223372036854775808]] world0) = -1"
  by (simp add: getConeArrDim_def nonneg_idxint_def PyInt_Check_def PyLong_Check_def
      PyInt_AsLong_def PyLong_AsLong_def long_result_def LONG_MIN_def LONG_MAX_def
      to_idxint_def Let_def printErr_def is_integer_def int_value_def)

section \<open>Options\<close>

lemma getPosIntParam_missing:
  "opt_missing opts key \<Longrightarrow> getPosIntParam bl key defVal opts st = (0, defVal, st)"
  by (cases opts) (simp_all add: opt_missing_def getPosIntParam_def)

lemma getOptFloatParam_missing:
  "opt_missing opts key \<Longrightarrow> getOptFloatParam bl key defVal opts st = (0, defVal, st)"
  by (cases opts) (simp_all add: opt_missing_def getOptFloatParam_def)

lemma parseOpts_absent:
  "parseOpts bl d None st =
     (0, d\<lparr>d_MAX_ITERS := 2500, d_VERBOSE := 1, d_NORMALIZE := 1, d_SCALE := 5,
           d_EPS := 1 / 1000, d_CG_RATE := 2, d_ALPHA := 18 / 10, d_RHO_X := 1 / 1000\<rparr>, st)"
  by (simp add: parseOpts_def getPosIntParam_def getOptFloatParam_def)

text \<open>The return code of a getter depends on the mapping and the key only.\<close>

lemma PyLong_AsLong_fst: "fst (PyLong_AsLong ob st) = long_value ob"
  by (cases ob) (simp_all add: long_value_def PyLong_AsLong_def long_result_def)

lemma nonneg_idxint_fst:
  "fst (nonneg_idxint bl ob v st) =
     ((PyInt_Check bl ob \<or> PyLong_Check bl ob) \<and> 0 \<le> to_idxint bl (long_value ob))"
  by (auto simp add: nonneg_idxint_def PyInt_AsLong_def Let_def split_beta PyLong_AsLong_fst)

lemma getPosIntParam_rc:
  "fst (getPosIntParam bl key defVal opts st) = (if int_opt_ok bl opts key then 0 else -1)"
proof -
  have "fst (getPosIntParam bl key dv opts s) =
      (case opts of None \<Rightarrow> 0 | Some dict \<Rightarrow>
         (case dict key of None \<Rightarrow> 0 | Some ob \<Rightarrow>
            if (PyInt_Check bl ob \<or> PyLong_Check bl ob) \<and> 0 \<le> to_idxint bl (long_value ob)
            then 0 else -1))" for dv s
    by (simp add: getPosIntParam_def printErr_def Let_def split_beta nonneg_idxint_fst
        split: option.splits)
  then show ?thesis
    by (simp add: int_opt_ok_def split: option.splits)
qed

lemma getOptFloatParam_rc:
  "fst (getOptFloatParam bl key defVal opts st) = (if float_opt_ok bl opts key then 0 else -1)"
proof -
  have "fst (getOptFloatParam bl key dv opts s) =
      (case opts of None \<Rightarrow> 0 | Some dict \<Rightarrow>
         (case dict key of None \<Rightarrow> 0 | Some ob \<Rightarrow>
            if PyInt_Check bl ob then (if long_value ob < 0 then -1 else 0)
            else (case ob of PyFloat v \<Rightarrow> if v < 0 then -1 else 0 | _ \<Rightarrow> -1)))" for dv s
    by (simp add: getOptFloatParam_def PyInt_AsLong_def Let_def split_beta PyLong_AsLong_fst
        not_le split: option.splits pyobj.splits)
  then show ?thesis
    by (simp add: float_opt_ok_def split: option.splits pyobj.splits)
qed

lemma parseOpts_prefix:
  "(opt_missing opts ''MAX_ITERS'' \<longrightarrow>
      d_MAX_ITERS (fst (snd (parseOpts bl d opts st))) = 2500) \<and>
   (int_opt_ok bl opts ''MAX_ITERS'' \<and> opt_missing opts ''VERBOSE'' \<longrightarrow>
      d_VERBOSE (fst (snd (parseOpts bl d opts st))) = 1) \<and>
   (int_opt_ok bl opts ''MAX_ITERS'' \<and> int_opt_ok bl opts ''VERBOSE'' \<and>
    opt_missing opts ''NORMALIZE'' \<longrightarrow>
      d_NORMALIZE (fst (snd (parseOpts bl d opts st))) = 1) \<and>
   (int_opt_ok bl opts ''MAX_ITERS'' \<and> int_opt_ok bl opts ''VERBOSE'' \<and>
    int_opt_ok bl opts ''NORMALIZE'' \<and> opt_missing opts ''SCALE'' \<longrightarrow>
      d_SCALE (fst (snd (parseOpts bl d opts st))) = 5) \<and>
   (int_opt_ok bl opts ''MAX_ITERS'' \<and> int_opt_ok bl opts ''VERBOSE'' \<and>
    int_opt_ok bl opts ''NORMALIZE'' \<and> float_opt_ok bl opts ''SCALE'' \<and>
    opt_missing opts ''EPS'' \<longrightarrow>
      d_EPS (fst (snd (parseOpts bl d opts st))) = 1 / 1000) \<and>
   (int_opt_ok bl opts ''MAX_ITERS'' \<and> int_opt_ok bl opts ''VERBOSE'' \<and>
    int_opt_ok bl opts ''NORMALIZE'' \<and> float_opt_ok bl opts ''SCALE'' \<and>
    float_opt_ok bl opts ''EPS'' \<and> opt_missing opts ''CG_RATE'' \<longrightarrow>
      d_CG_RATE (fst (snd (parseOpts bl d opts st))) = 2) \<and>
   (int_opt_ok bl opts ''MAX_ITERS'' \<and> int_opt_ok bl opts ''VERBOSE'' \<and>
    int_opt_ok bl opts ''NORMALIZE'' \<and> float_opt_ok bl opts ''SCALE'' \<and>
    float_opt_ok bl opts ''EPS'' \<and> float_opt_ok bl opts ''CG_RATE'' \<and>
    opt_missing opts ''ALPHA'' \<longrightarrow>
      d_ALPHA (fst (snd (parseOpts bl d opts st))) = 18 / 10) \<and>
   (int_opt_ok bl opts ''MAX_ITERS'' \<and> int_opt_ok bl opts ''VERBOSE'' \<and>
    int_opt_ok bl opts ''NORMALIZE'' \<and> float_opt_ok bl opts ''SCALE'' \<and>
    float_opt_ok bl opts ''EPS'' \<and> float_opt_ok bl opts ''CG_RATE'' \<and>
    float_opt_ok bl opts ''ALPHA'' \<and> opt_missing opts ''RHO_X'' \<longrightarrow>
      d_RHO_X (fst (snd (parseOpts bl d opts st))) = 1 / 1000) \<and>
   (fst (parseOpts bl d opts st) = 0 \<longrightarrow>
      int_opt_ok bl opts ''MAX_ITERS'' \<and> int_opt_ok bl opts ''VERBOSE'' \<and>
      int_opt_ok bl opts ''NORMALIZE'' \<and> float_opt_ok bl opts ''SCALE'' \<and>
      float_opt_ok bl opts ''EPS'' \<and> float_opt_ok bl opts ''CG_RATE'' \<and>
      float_opt_ok bl opts ''ALPHA'' \<and> float_opt_ok bl opts ''RHO_X'')"
proof -
  obtain rc1 v1 st1 where r1: "getPosIntParam bl ''MAX_ITERS'' 2500 opts st = (rc1, v1, st1)"
    by (cases "getPosIntParam bl ''MAX_ITERS'' 2500 opts st") auto
  obtain rc2 v2 st2 where r2: "getPosIntParam bl ''VERBOSE'' 1 opts st1 = (rc2, v2, st2)"
    by (cases "getPosIntParam bl ''VERBOSE'' 1 opts st1") auto
  obtain rc3 v3 st3 where r3: "getPosIntParam bl ''NORMALIZE'' 1 opts st2 = (rc3, v3, st3)"
    by (cases "getPosIntParam bl ''NORMALIZE'' 1 opts st2") auto
  obtain rc4 v4 st4 where r4: "getOptFloatParam bl ''SCALE'' 5 opts st3 = (rc4, v4, st4)"
    by (cases "getOptFloatParam bl ''SCALE'' 5 opts st3") auto
  obtain rc5 v5 st5 where r5: "getOptFloatParam bl ''EPS'' (1 / 1000) opts st4 = (rc5, v5, st5)"
    by (cases "getOptFloatParam bl ''EPS'' (1 / 1000) opts st4") auto
  obtain rc6 v6 st6 where r6: "getOptFloatParam bl ''CG_RATE'' 2 opts st5 = (rc6, v6, st6)"
    by (cases "getOptFloatParam bl ''CG_RATE'' 2 opts st5") auto
  obtain rc7 v7 st7 where r7: "getOptFloatParam bl ''ALPHA'' (9 / 5) opts st6 = (rc7, v7, st7)"
    by (cases "getOptFloatParam bl ''ALPHA'' (9 / 5) opts st6") auto
  obtain rc8 v8 st8 where r8: "getOptFloatParam bl ''RHO_X'' (1 / 1000) opts st7 = (rc8, v8, st8)"
    by (cases "getOptFloatParam bl ''RHO_X'' (1 / 1000) opts st7") auto
  have c1: "rc1 = (if int_opt_ok bl opts ''MAX_ITERS'' then 0 else -1)"
    using getPosIntParam_rc [of bl "''MAX_ITERS''" 2500 opts st] r1 by simp
  have c2: "rc2 = (if int_opt_ok bl opts ''VERBOSE'' then 0 else -1)"
    using getPosIntParam_rc [of bl "''VERBOSE''" 1 opts st1] r2 by simp
  have c3: "rc3 = (if int_opt_ok bl opts ''NORMALIZE'' then 0 else -1)"
    using getPosIntParam_rc [of bl "''NORMALIZE''" 1 opts st2] r3 by simp
  have c4: "rc4 = (if float_opt_ok bl opts ''SCALE'' then 0 else -1)"
    using getOptFloatParam_rc [of bl "''SCALE''" 5 opts st3] r4 by simp
  have c5: "rc5 = (if float_opt_ok bl opts ''EPS'' then 0 else -1)"
    using getOptFloatParam_rc [of bl "''EPS''" "1 / 1000" opts st4] r5 by simp
  have c6: "rc6 = (if float_opt_ok bl opts ''CG_RATE'' then 0 else -1)"
    using getOptFloatParam_rc [of bl "''CG_RATE''" 2 opts st5] r6 by simp
  have c7: "rc7 = (if float_opt_ok bl opts ''ALPHA'' then 0 else -1)"
    using getOptFloatParam_rc [of bl "''ALPHA''" "9 / 5" opts st6] r7 by simp
  have c8: "rc8 = (if float_opt_ok bl opts ''RHO_X'' then 0 else -1)"
    using getOptFloatParam_rc [of bl "''RHO_X''" "1 / 1000" opts st7] r8 by simp
  have m1: "opt_missing opts ''MAX_ITERS'' \<Longrightarrow> v1 = 2500"
    using r1 by (simp add: getPosIntParam_missing)
  have m2: "opt_missing opts ''VERBOSE'' \<Longrightarrow> v2 = 1"
    using r2 by (simp add: getPosIntParam_missing)
  have m3: "opt_missing opts ''NORMALIZE'' \<Longrightarrow> v3 = 1"
    using r3 by (simp add: getPosIntParam_missing)
  have m4: "opt_missing opts ''SCALE'' \<Longrightarrow> v4 = 5"
    using r4 by (simp add: getOptFloatParam_missing)
  have m5: "opt_missing opts ''EPS'' \<Longrightarrow> v5 = 1 / 1000"
    using r5 by (simp add: getOptFloatParam_missing)
  have m6: "opt_missing opts ''CG_RATE'' \<Longrightarrow> v6 = 2"
    using r6 by (simp add: getOptFloatParam_missing)
  have m7: "opt_missing opts ''ALPHA'' \<Longrightarrow> v7 = 9 / 5"
    using r7 by (simp add: getOptFloatParam_missing)
  have m8: "opt_missing opts ''RHO_X'' \<Longrightarrow> v8 = 1 / 1000"
    using r8 by (simp add: getOptFloatParam_missing)
  have p: "parseOpts bl d opts st =
      (if rc1 < 0 then (-1, d\<lparr>d_MAX_ITERS := v1\<rparr>, st1)
       else if rc2 < 0 then (-1, d\<lparr>d_MAX_ITERS := v1, d_VERBOSE := v2\<rparr>, st2)
       else if rc3 \<noteq> 0 then (-1, d\<lparr>d_MAX_ITERS := v1, d_VERBOSE := v2, d_NORMALIZE := v3\<rparr>, st3)
       else if rc4 < 0
       then (-1, d\<lparr>d_MAX_ITERS := v1, d_VERBOSE := v2, d_NORMALIZE := v3, d_SCALE := v4\<rparr>, st4)
       else if rc5 < 0
       then (-1, d\<lparr>d_MAX_ITERS := v1, d_VERBOSE := v2, d_NORMALIZE := v3, d_SCALE := v4,
                   d_EPS := v5\<rparr>, st5)
       else if rc6 < 0
       then (-1, d\<lparr>d_MAX_ITERS := v1, d_VERBOSE := v2, d_NORMALIZE := v3, d_SCALE := v4,
                   d_EPS := v5, d_CG_RATE := v6\<rparr>, st6)
       else if rc7 < 0
       then (-1, d\<lparr>d_MAX_ITERS := v1, d_VERBOSE := v2, d_NORMALIZE := v3, d_SCALE := v4,
                   d_EPS := v5, d_CG_RATE := v6, d_ALPHA := v7\<rparr>, st7)
       else if rc8 < 0
       then (-1, d\<lparr>d_MAX_ITERS := v1, d_VERBOSE := v2, d_NORMALIZE := v3, d_SCALE := v4,
                   d_EPS := v5, d_CG_RATE := v6, d_ALPHA := v7, d_RHO_X := v8\<rparr>, st8)
       else (0, d\<lparr>d_MAX_ITERS := v1, d_VERBOSE := v2, d_NORMALIZE := v3, d_SCALE := v4,
                   d_EPS := v5, d_CG_RATE := v6, d_ALPHA := v7, d_RHO_X := v8\<rparr>, st8))"
    by (simp add: parseOpts_def Let_def r1 r2 r3 r4 r5 r6 r7 r8)
  show ?thesis
    unfolding p
    using m1 m2 m3 m4 m5 m6 m7 m8
    by (simp add: c1 c2 c3 c4 c5 c6 c7 c8)
qed

lemma parseOpts_success:
  "(\<forall>d' st'. parseOpts bl d opts st = (0, d', st') \<longrightarrow>
      (opt_missing opts ''MAX_ITERS'' \<longrightarrow> d_MAX_ITERS d' = 2500) \<and>
      (opt_missing opts ''VERBOSE'' \<longrightarrow> d_VERBOSE d' = 1) \<and>
      (opt_missing opts ''NORMALIZE'' \<longrightarrow> d_NORMALIZE d' = 1) \<and>
      (opt_missing opts ''SCALE'' \<longrightarrow> d_SCALE d' = 5) \<and>
      (opt_missing opts ''EPS'' \<longrightarrow> d_EPS d' = 1 / 1000) \<and>
      (opt_missing opts ''CG_RATE'' \<longrightarrow> d_CG_RATE d' = 2) \<and>
      (opt_missing opts ''ALPHA'' \<longrightarrow> d_ALPHA d' = 18 / 10) \<and>
      (opt_missing opts ''RHO_X'' \<longrightarrow> d_RHO_X d' = 1 / 1000))"
proof (intro conjI allI impI)
  fix d' st' assume "parseOpts bl d opts st = (0, d', st')" "opt_missing opts ''MAX_ITERS''"
  then show "d_MAX_ITERS d' = 2500"
    by (auto simp add: parseOpts_def Let_def getPosIntParam_missing split: prod.splits if_splits)
next
  fix d' st' assume "parseOpts bl d opts st = (0, d', st')" "opt_missing opts ''VERBOSE''"
  then show "d_VERBOSE d' = 1"
    by (auto simp add: parseOpts_def Let_def getPosIntParam_missing split: prod.splits if_splits)
next
  fix d' st' assume "parseOpts bl d opts st = (0, d', st')" "opt_missing opts ''NORMALIZE''"
  then show "d_NORMALIZE d' = 1"
    by (auto simp add: parseOpts_def Let_def getPosIntParam_missing split: prod.splits if_splits)
next
  fix d' st' assume "parseOpts bl d opts st = (0, d', st')" "opt_missing opts ''SCALE''"
  then show "d_SCALE d' = 5"
    by (auto simp add: parseOpts_def Let_def getOptFloatParam_missing split: prod.splits if_splits)
next
  fix d' st' assume "parseOpts bl d opts st = (0, d', st')" "opt_missing opts ''EPS''"
  then show "d_EPS d' = 1 / 1000"
    by (auto simp add: parseOpts_def Let_def getOptFloatParam_missing split: prod.splits if_splits)
next
  fix d' st' assume "parseOpts bl d opts st = (0, d', st')" "opt_missing opts ''CG_RATE''"
  then show "d_CG_RATE d' = 2"
    by (auto simp add: parseOpts_def Let_def getOptFloatParam_missing split: prod.splits if_splits)
next
  fix d' st' assume "parseOpts bl d opts st = (0, d', st')" "opt_missing opts ''ALPHA''"
  then show "d_ALPHA d' = 18 / 10"
    by (auto simp add: parseOpts_def Let_def getOptFloatParam_missing split: prod.splits if_splits)
next
  fix d' st' assume "parseOpts bl d opts st = (0, d', st')" "opt_missing opts ''RHO_X''"
  then show "d_RHO_X d' = 1 / 1000"
    by (auto simp add: parseOpts_def Let_def getOptFloatParam_missing split: prod.splits if_splits)
qed

text \<open>
  Claim C4, as amended: on an absent mapping \<^verbatim>\<open>parseOpts\<close> succeeds and assigns all
  eight documented defaults (\<open>MAX_ITERS\<close> 2500, \<open>VERBOSE\<close> 1, \<open>NORMALIZE\<close> 1,
  \<open>SCALE\<close> 5, \<open>EPS\<close> \<open>1e-3\<close>, \<open>CG_RATE\<close> 2, \<open>ALPHA\<close> 1.8, \<open>RHO_X\<close> \<open>1e-3\<close>);
  for every options mapping, each recognised key that the mapping lacks has its
  documented default when \<^verbatim>\<open>parseOpts\<close> returns, provided that none of the options
  read before it, in the order just given, fails to parse; and a call that succeeds
  has met no option that fails, so that then every missing key has its default.
\<close>

theorem parseOpts_defaults:
  "parseOpts bl d None st =
     (0, d\<lparr>d_MAX_ITERS := 2500, d_VERBOSE := 1, d_NORMALIZE := 1, d_SCALE := 5,
           d_EPS := 1 / 1000, d_CG_RATE := 2, d_ALPHA := 18 / 10, d_RHO_X := 1 / 1000\<rparr>, st) \<and>
   ((opt_missing opts ''MAX_ITERS'' \<longrightarrow>
      d_MAX_ITERS (fst (snd (parseOpts bl d opts st))) = 2500) \<and>
   (int_opt_ok bl opts ''MAX_ITERS'' \<and> opt_missing opts ''VERBOSE'' \<longrightarrow>
      d_VERBOSE (fst (snd (parseOpts bl d opts st))) = 1) \<and>
   (int_opt_ok bl opts ''MAX_ITERS'' \<and> int_opt_ok bl opts ''VERBOSE'' \<and>
    opt_missing opts ''NORMALIZE'' \<longrightarrow>
      d_NORMALIZE (fst (snd (parseOpts bl d opts st))) = 1) \<and>
   (int_opt_ok bl opts ''MAX_ITERS'' \<and> int_opt_ok bl opts ''VERBOSE'' \<and>
    int_opt_ok bl opts ''NORMALIZE'' \<and> opt_missing opts ''SCALE'' \<longrightarrow>
      d_SCALE (fst (snd (parseOpts bl d opts st))) = 5) \<and>
   (int_opt_ok bl opts ''MAX_ITERS'' \<and> int_opt_ok bl opts ''VERBOSE'' \<and>
    int_opt_ok bl opts ''NORMALIZE'' \<and> float_opt_ok bl opts ''SCALE'' \<and>
    opt_missing opts ''EPS'' \<longrightarrow>
      d_EPS (fst (snd (parseOpts bl d opts st))) = 1 / 1000) \<and>
   (int_opt_ok bl opts ''MAX_ITERS'' \<and> int_opt_ok bl opts ''VERBOSE'' \<and>
    int_opt_ok bl opts ''NORMALIZE'' \<and> float_opt_ok bl opts ''SCALE'' \<and>
    float_opt_ok bl opts ''EPS'' \<and> opt_missing opts ''CG_RATE'' \<longrightarrow>
      d_CG_RATE (fst (snd (parseOpts bl d opts st))) = 2) \<and>
   (int_opt_ok bl opts ''MAX_ITERS'' \<and> int_opt_ok bl opts ''VERBOSE'' \<and>
    int_opt_ok bl opts ''NORMALIZE'' \<and> float_opt_ok bl opts ''SCALE'' \<and>
    float_opt_ok bl opts ''EPS'' \<and> float_opt_ok bl opts ''CG_RATE'' \<and>
    opt_missing opts ''ALPHA'' \<longrightarrow>
      d_ALPHA (fst (snd (parseOpts bl d opts st))) = 18 / 10) \<and>
   (int_opt_ok bl opts ''MAX_ITERS'' \<and> int_opt_ok bl opts ''VERBOSE'' \<and>
    int_opt_ok bl opts ''NORMALIZE'' \<and> float_opt_ok bl opts ''SCALE'' \<and>
    float_opt_ok bl opts ''EPS'' \<and> float_opt_ok bl opts ''CG_RATE'' \<and>
    float_opt_ok bl opts ''ALPHA'' \<and> opt_missing opts ''RHO_X'' \<longrightarrow>
      d_RHO_X (fst (snd (parseOpts bl d opts st))) = 1 / 1000) \<and>
   (fst (parseOpts bl d opts st) = 0 \<longrightarrow>
      int_opt_ok bl opts ''MAX_ITERS'' \<and> int_opt_ok bl opts ''VERBOSE'' \<and>
      int_opt_ok bl opts ''NORMALIZE'' \<and> float_opt_ok bl opts ''SCALE'' \<and>
      float_opt_ok bl opts ''EPS'' \<and> float_opt_ok bl opts ''CG_RATE'' \<and>
      float_opt_ok bl opts ''ALPHA'' \<and> float_opt_ok bl opts ''RHO_X'')) \<and>
   (\<forall>d' st'. parseOpts bl d opts st = (0, d', st') \<longrightarrow>
      (opt_missing opts ''MAX_ITERS'' \<longrightarrow> d_MAX_ITERS d' = 2500) \<and>
      (opt_missing opts ''VERBOSE'' \<longrightarrow> d_VERBOSE d' = 1) \<and>
      (opt_missing opts ''NORMALIZE'' \<longrightarrow> d_NORMALIZE d' = 1) \<and>
      (opt_missing opts ''SCALE'' \<longrightarrow> d_SCALE d' = 5) \<and>
      (opt_missing opts ''EPS'' \<longrightarrow> d_EPS d' = 1 / 1000) \<and>
      (opt_missing opts ''CG_RATE'' \<longrightarrow> d_CG_RATE d' = 2) \<and>
      (opt_missing opts ''ALPHA'' \<longrightarrow> d_ALPHA d' = 18 / 10) \<and>
      (opt_missing opts ''RHO_X'' \<longrightarrow> d_RHO_X d' = 1 / 1000))"
  by (rule conjI [OF parseOpts_absent conjI [OF parseOpts_prefix parseOpts_success]])

theorem parseOpts_defaults_witness:
  "parseOpts \<lparr> PY_MAJOR_VERSION = 3, DLONG = False \<rparr> calloc_Data
       (Some [''MAX_ITERS'' \<mapsto> PyLong 10, ''EPS'' \<mapsto> PyFloat (1 / 100)]) world0 =
     (0, calloc_Data\<lparr>d_MAX_ITERS := 10, d_VERBOSE := 1, d_NORMALIZE := 1, d_SCALE := 5,
           d_EPS := 1 / 100, d_CG_RATE := 2, d_ALPHA := 18 / 10, d_RHO_X := 1 / 1000\<rparr>,
      world0) \<and>
   d_ALPHA (fst (snd (parseOpts \<lparr> PY_MAJOR_VERSION = 3, DLONG = False \<rparr> calloc_Data
       (Some [''MAX_ITERS'' \<mapsto> PyLong 10, ''EPS'' \<mapsto> PyFloat (1 / 100)]) world0))) = 18 / 10 \<and>
   d_VERBOSE (fst (snd (parseOpts \<lparr> PY_MAJOR_VERSION = 3, DLONG = False \<rparr> calloc_Data
       (Some [''MAX_ITERS'' \<mapsto> PyLong 10, ''EPS'' \<mapsto> PyFloat (1 / 100)]) world0))) = 1 \<and>
   fst (parseOpts \<lparr> PY_MAJOR_VERSION = 3, DLONG = False \<rparr> calloc_Data
       (Some [''VERBOSE'' \<mapsto> PyLong 0, ''ALPHA'' \<mapsto> PyFloat (- 1)]) world0) = - 1 \<and>
   d_SCALE (fst (snd (parseOpts \<lparr> PY_MAJOR_VERSION = 3, DLONG = False \<rparr> calloc_Data
       (Some [''VERBOSE'' \<mapsto> PyLong 0, ''ALPHA'' \<mapsto> PyFloat (- 1)]) world0))) = 5"
proof -
  let ?bl = "\<lparr> PY_MAJOR_VERSION = 3, DLONG = False \<rparr>"
  let ?opts = "Some [''MAX_ITERS'' \<mapsto> PyLong 10, ''EPS'' \<mapsto> PyFloat (1 / 100)]"
  let ?d = "calloc_Data\<lparr>d_MAX_ITERS := 10, d_VERBOSE := 1, d_NORMALIZE := 1, d_SCALE := 5,
           d_EPS := 1 / 100, d_CG_RATE := 2, d_ALPHA := 18 / 10, d_RHO_X := 1 / 1000\<rparr>"
  let ?bad = "Some [''VERBOSE'' \<mapsto> PyLong 0, ''ALPHA'' \<mapsto> PyFloat (- 1)]"
  have run: "parseOpts ?bl calloc_Data ?opts world0 = (0, ?d, world0)"
    by (simp add: parseOpts_def getPosIntParam_def getOptFloatParam_def nonneg_idxint_def
        PyInt_Check_def PyLong_Check_def PyInt_AsLong_def PyLong_AsLong_def long_result_def
        LONG_MIN_def LONG_MAX_def to_idxint_def Let_def calloc_Data_def)
  have miss: "opt_missing ?opts ''ALPHA''" "opt_missing ?opts ''VERBOSE''"
    by (simp_all add: opt_missing_def)
  note t = parseOpts_defaults [where bl = ?bl and d = calloc_Data and st = world0
      and opts = ?opts, THEN conjunct2, THEN conjunct2, rule_format, OF run]
  from t miss have good: "d_ALPHA ?d = 18 / 10" "d_VERBOSE ?d = 1"
    by simp_all
  have ok: "int_opt_ok ?bl ?bad ''MAX_ITERS''" "int_opt_ok ?bl ?bad ''VERBOSE''"
      "int_opt_ok ?bl ?bad ''NORMALIZE''" "opt_missing ?bad ''SCALE''"
    by (simp_all add: int_opt_ok_def opt_missing_def getPosIntParam_def nonneg_idxint_def
        PyInt_Check_def PyLong_Check_def PyInt_AsLong_def PyLong_AsLong_def long_result_def
        LONG_MIN_def LONG_MAX_def to_idxint_def Let_def)
  have fails: "fst (parseOpts ?bl calloc_Data ?bad world0) = - 1"
    by (simp add: parseOpts_def getPosIntParam_def getOptFloatParam_def nonneg_idxint_def
        PyInt_Check_def PyLong_Check_def PyInt_AsLong_def PyLong_AsLong_def long_result_def
        LONG_MIN_def LONG_MAX_def to_idxint_def Let_def calloc_Data_def)
  note u = parseOpts_defaults [where bl = ?bl and d = calloc_Data and st = world0
      and opts = ?bad, THEN conjunct2, THEN conjunct1]
  from u ok have "d_SCALE (fst (snd (parseOpts ?bl calloc_Data ?bad world0))) = 5"
    by simp
  with run good fails show ?thesis by simp
qed

text \<open>
  The claim as it was written speaks of every options mapping. \<^verbatim>\<open>parseOpts\<close> returns
  at the first option that fails, before it reaches the later ones: with
  \<open>MAX_ITERS = -1\<close> the key \<open>ALPHA\<close> is missing and the field keeps the 0 of the
  zero-initialised structure.
\<close>

theorem parseOpts_early_return_counterexample:
  "opt_missing (Some [''MAX_ITERS'' \<mapsto> PyLong (- 1)]) ''ALPHA'' \<and>
   fst (parseOpts \<lparr> PY_MAJOR_VERSION = 3, DLONG = False \<rparr> calloc_Data
          (Some [''MAX_ITERS'' \<mapsto> PyLong (- 1)]) world0) = -1 \<and>
   d_ALPHA (fst (snd (parseOpts \<lparr> PY_MAJOR_VERSION = 3, DLONG = False \<rparr> calloc_Data
          (Some [''MAX_ITERS'' \<mapsto> PyLong (- 1)]) world0))) = 0"
  by (simp add: parseOpts_def getPosIntParam_def nonneg_idxint_def
      PyInt_Check_def PyLong_Check_def PyInt_AsLong_def PyLong_AsLong_def long_result_def
      LONG_MIN_def LONG_MAX_def to_idxint_def Let_def calloc_Data_def opt_missing_def printErr_def)

section \<open>Teardown releases what is set, once\<close>

lemma set_guarded: "set (guarded (map (\<lambda>f. (P f, g f)) fs)) = g ` {f \<in> set fs. P f}"
  by (induction fs) auto

lemma distinct_guarded: "distinct (map g fs) \<Longrightarrow> distinct (guarded (map (\<lambda>f. (P f, g f)) fs))"
  by (induction fs) (auto simp add: set_guarded)

lemma set_all_fields: "set all_fields = UNIV"
proof -
  have "f \<in> set all_fields" for f
    by (cases f) (simp_all add: all_fields_def)
  then show ?thesis by auto
qed

lemma distinct_all_fields: "distinct (map release_of all_fields)"
  by (simp add: all_fields_def)

lemma freePyData_guarded:
  "freePyData d k ps st =
     st\<lparr>reaped := reaped st @
       [guarded (map (\<lambda>f. (field_set d k ps f, release_of f)) all_fields)]\<rparr>"
  by (cases k; cases d) (simp_all add: freePyData_def all_fields_def)

text \<open>
  Claim C9: on a state in which any of the fields \<open>Ax\<close>, \<open>Ai\<close>, \<open>Ap\<close>, \<open>b\<close>, \<open>c\<close>,
  \<open>x0\<close>, \<open>y0\<close>, \<open>s0\<close>, the cone structure, its \<open>q\<close> and \<open>s\<close> arrays, the data
  structure and its \<open>A\<close> wrapper may be unset, \<^verbatim>\<open>freePyData\<close> performs the release that
  belongs to each field that is set, performs none for a field that is unset, and
  performs no release twice. It changes nothing else.
\<close>

theorem freePyData_exact:
  "\<exists>rs. freePyData d k ps st = st\<lparr>reaped := reaped st @ [rs]\<rparr> \<and>
        distinct rs \<and> set rs = release_of ` {f. field_set d k ps f}"
proof (intro exI conjI)
  show "freePyData d k ps st =
     st\<lparr>reaped := reaped st @
       [guarded (map (\<lambda>f. (field_set d k ps f, release_of f)) all_fields)]\<rparr>"
    by (rule freePyData_guarded)
  show "distinct (guarded (map (\<lambda>f. (field_set d k ps f, release_of f)) all_fields))"
    by (rule distinct_guarded [OF distinct_all_fields])
  show "set (guarded (map (\<lambda>f. (field_set d k ps f, release_of f)) all_fields)) =
          release_of ` {f. field_set d k ps f}"
    by (simp add: set_guarded set_all_fields)
qed

theorem freePyData_exact_witness:
  "freePyData (Some calloc_Data) (Some (calloc_Cone\<lparr>k_q := Some [3]\<rparr>))
      \<lparr> ps_Ax = Some \<lparr> arr_type = NPY_DOUBLE, arr_dims = [1], arr_data = [1] \<rparr>,
        ps_Ai = None, ps_Ap = None, ps_b = None, ps_c = None,
        ps_x0 = None, ps_y0 = None, ps_s0 = None \<rparr> world0 =
     world0\<lparr>reaped := [[Py_DECREF F_Ax, scs_free F_k_q, scs_free F_k, scs_free F_d]]\<rparr> \<and>
   set [Py_DECREF F_Ax, scs_free F_k_q, scs_free F_k, scs_free F_d] =
     release_of ` {f. field_set (Some calloc_Data) (Some (calloc_Cone\<lparr>k_q := Some [3]\<rparr>))
      \<lparr> ps_Ax = Some \<lparr> arr_type = NPY_DOUBLE, arr_dims = [1], arr_data = [1] \<rparr>,
        ps_Ai = None, ps_Ap = None, ps_b = None, ps_c = None,
        ps_x0 = None, ps_y0 = None, ps_s0 = None \<rparr> f}"
proof -
  let ?d = "Some calloc_Data"
  let ?k = "Some (calloc_Cone\<lparr>k_q := Some [3]\<rparr>)"
  let ?ps = "\<lparr> ps_Ax = Some \<lparr> arr_type = NPY_DOUBLE, arr_dims = [1], arr_data = [1] \<rparr>,
        ps_Ai = None, ps_Ap = None, ps_b = None, ps_c = None,
        ps_x0 = None, ps_y0 = None, ps_s0 = None \<rparr>"
  let ?rs = "[Py_DECREF F_Ax, scs_free F_k_q, scs_free F_k, scs_free F_d]"
  have run: "freePyData ?d ?k ?ps world0 = world0\<lparr>reaped := [?rs]\<rparr>"
    by (simp add: freePyData_def calloc_Data_def calloc_Cone_def world0_def)
  from freePyData_exact [of ?d ?k ?ps world0]
  obtain rs where rs: "freePyData ?d ?k ?ps world0 = world0\<lparr>reaped := reaped world0 @ [rs]\<rparr>"
      "set rs = release_of ` {f. field_set ?d ?k ?ps f}"
    by blast
  from rs(1) run have "rs = ?rs"
    by (simp add: world0_def)
  with rs(2) run show ?thesis by simp
qed

section \<open>The entry point, stage by stage\<close>

lemma csolve_cone_as_stage:
  "csolve_cone bl scs d k ps cone opts warm st =
     (case cone_stage bl d k cone opts st of
        Inl (d1, k1, msg, st1) \<Rightarrow> Inr (finishWithErr (Some d1) (Some k1) ps msg st1)
      | Inr (d', k', st') \<Rightarrow> csolve_solve bl scs d' k' ps warm st')"
  by (simp add: csolve_cone_def cone_stage_def Let_def split: prod.splits)

lemma csolve_as_stages:
  "csolve bl scs m n Ax Ai Ap b c cone opts warm st =
     (if m < 0 then Inr (None, PyErr_SetString ValueError ''m must be a positive integer'' st)
      else if n < 0 then Inr (None, PyErr_SetString ValueError ''n must be a positive integer'' st)
      else case array_stage bl m n Ax Ai Ap b c of
             Inl (d, ps, msg) \<Rightarrow> Inr (finishWithErr (Some d) (Some calloc_Cone) ps msg st)
           | Inr (d, ps) \<Rightarrow> csolve_cone bl scs d calloc_Cone ps cone opts warm st)"
  by (simp add: csolve_def array_stage_def Let_def float_vector_def int_vector_def getContiguous_def)

lemma PyLong_AsLong_quiet: "PyLong_AsLong ob st = (r, st') \<Longrightarrow> quiet st st'"
  by (auto simp add: PyLong_AsLong_def long_result_def PyErr_SetString_def quiet_def
      split: pyobj.splits if_splits)

lemma nonneg_idxint_quiet: "nonneg_idxint bl ob v st = (t, v', st') \<Longrightarrow> quiet st st'"
  by (auto simp add: nonneg_idxint_def PyInt_AsLong_def Let_def quiet_def
      split: prod.splits if_splits dest!: PyLong_AsLong_quiet)

lemma printErr_quiet: "printErr key st = (rc, st') \<Longrightarrow> quiet st st'"
  by (auto simp add: printErr_def PySys_WriteStderr_def quiet_def)

lemma getConeArrDim_loop_quiet:
  "getConeArrDim_loop bl items i q st = (t, q', st') \<Longrightarrow> quiet st st'"
proof (induction items arbitrary: i q st)
  case Nil
  then show ?case by (simp add: quiet_def)
next
  case (Cons x xs)
  obtain t1 v1 st1 where r: "nonneg_idxint bl x (q ! i) st = (t1, v1, st1)"
    by (cases "nonneg_idxint bl x (q ! i) st") auto
  have q1: "quiet st st1" using nonneg_idxint_quiet [OF r] .
  show ?case
  proof (cases t1)
    case False
    with Cons.prems r q1 show ?thesis by simp
  next
    case True
    with Cons.prems r have "getConeArrDim_loop bl xs (Suc i) (q[i := v1]) st1 = (t, q', st')"
      by simp
    then have "quiet st1 st'" by (rule Cons.IH)
    with q1 show ?thesis by (simp add: quiet_def)
  qed
qed

lemma getConeArrDim_quiet:
  "getConeArrDim bl key varr vsize cone st = (rc, varr', vsize', st') \<Longrightarrow> quiet st st'"
  by (auto simp add: getConeArrDim_def Let_def quiet_def
      split: option.splits pyobj.splits prod.splits if_splits
      dest!: getConeArrDim_loop_quiet nonneg_idxint_quiet printErr_quiet)

lemma getPosIntParam_quiet:
  "getPosIntParam bl key defVal opts st = (rc, v, st') \<Longrightarrow> quiet st st'"
  by (auto simp add: getPosIntParam_def Let_def quiet_def
      split: option.splits prod.splits if_splits
      dest!: nonneg_idxint_quiet printErr_quiet)

lemma getOptFloatParam_quiet:
  "getOptFloatParam bl key defVal opts st = (rc, v, st') \<Longrightarrow> quiet st st'"
  by (auto simp add: getOptFloatParam_def Let_def quiet_def PyInt_AsLong_def PySys_WriteStderr_def
      split: option.splits prod.splits if_splits pyobj.splits
      dest!: PyLong_AsLong_quiet)

lemma parseOpts_keeps:
  assumes "parseOpts bl d opts st = (rc, d', st')"
  shows "d_m d' = d_m d \<and> d_n d' = d_n d \<and> quiet st st'"
proof -
  obtain rc1 v1 st1 where r1: "getPosIntParam bl ''MAX_ITERS'' 2500 opts st = (rc1, v1, st1)"
    by (cases "getPosIntParam bl ''MAX_ITERS'' 2500 opts st") auto
  obtain rc2 v2 st2 where r2: "getPosIntParam bl ''VERBOSE'' 1 opts st1 = (rc2, v2, st2)"
    by (cases "getPosIntParam bl ''VERBOSE'' 1 opts st1") auto
  obtain rc3 v3 st3 where r3: "getPosIntParam bl ''NORMALIZE'' 1 opts st2 = (rc3, v3, st3)"
    by (cases "getPosIntParam bl ''NORMALIZE'' 1 opts st2") auto
  obtain rc4 v4 st4 where r4: "getOptFloatParam bl ''SCALE'' 5 opts st3 = (rc4, v4, st4)"
    by (cases "getOptFloatParam bl ''SCALE'' 5 opts st3") auto
  obtain rc5 v5 st5 where r5: "getOptFloatParam bl ''EPS'' (1 / 1000) opts st4 = (rc5, v5, st5)"
    by (cases "getOptFloatParam bl ''EPS'' (1 / 1000) opts st4") auto
  obtain rc6 v6 st6 where r6: "getOptFloatParam bl ''CG_RATE'' 2 opts st5 = (rc6, v6, st6)"
    by (cases "getOptFloatParam bl ''CG_RATE'' 2 opts st5") auto
  obtain rc7 v7 st7 where r7: "getOptFloatParam bl ''ALPHA'' (9 / 5) opts st6 = (rc7, v7, st7)"
    by (cases "getOptFloatParam bl ''ALPHA'' (9 / 5) opts st6") auto
  obtain rc8 v8 st8 where r8: "getOptFloatParam bl ''RHO_X'' (1 / 1000) opts st7 = (rc8, v8, st8)"
    by (cases "getOptFloatParam bl ''RHO_X'' (1 / 1000) opts st7") auto
  note q = getPosIntParam_quiet [OF r1] getPosIntParam_quiet [OF r2] getPosIntParam_quiet [OF r3]
    getOptFloatParam_quiet [OF r4] getOptFloatParam_quiet [OF r5] getOptFloatParam_quiet [OF r6]
    getOptFloatParam_quiet [OF r7] getOptFloatParam_quiet [OF r8]
  show ?thesis
    using assms q
    by (auto simp add: parseOpts_def Let_def r1 r2 r3 r4 r5 r6 r7 r8 quiet_def split: if_splits)
qed

lemma cone_stage_keeps:
  "(\<forall>d' k' st'. cone_stage bl d k cone opts st = Inr (d', k', st') \<longrightarrow>
       d_m d' = d_m d \<and> d_n d' = d_n d \<and> quiet st st') \<and>
   (\<forall>d1 k1 msg st1. cone_stage bl d k cone opts st = Inl (d1, k1, msg, st1) \<longrightarrow> quiet st st1)"
proof -
  obtain rc1 v1 st1 where r1: "getPosIntParam bl ''f'' 0 (Some cone) st = (rc1, v1, st1)"
    by (cases "getPosIntParam bl ''f'' 0 (Some cone) st") auto
  obtain rc2 v2 st2 where r2: "getPosIntParam bl ''l'' 0 (Some cone) st1 = (rc2, v2, st2)"
    by (cases "getPosIntParam bl ''l'' 0 (Some cone) st1") auto
  let ?k2 = "k\<lparr>k_f := v1, k_l := v2\<rparr>"
  obtain rc3 q qsize st3 where
    r3: "getConeArrDim bl ''q'' (k_q ?k2) (k_qsize ?k2) cone st2 = (rc3, q, qsize, st3)"
    by (cases "getConeArrDim bl ''q'' (k_q ?k2) (k_qsize ?k2) cone st2") auto
  let ?k3 = "?k2\<lparr>k_q := q, k_qsize := qsize\<rparr>"
  obtain rc4 s ssize st4 where
    r4: "getConeArrDim bl ''s'' (k_s ?k3) (k_ssize ?k3) cone st3 = (rc4, s, ssize, st4)"
    by (cases "getConeArrDim bl ''s'' (k_s ?k3) (k_ssize ?k3) cone st3") auto
  obtain rc5 v5 st5 where r5: "getPosIntParam bl ''ep'' 0 (Some cone) st4 = (rc5, v5, st5)"
    by (cases "getPosIntParam bl ''ep'' 0 (Some cone) st4") auto
  obtain rc6 v6 st6 where r6: "getPosIntParam bl ''ed'' 0 (Some cone) st5 = (rc6, v6, st6)"
    by (cases "getPosIntParam bl ''ed'' 0 (Some cone) st5") auto
  obtain rc7 d7 st7 where r7: "parseOpts bl d opts st6 = (rc7, d7, st7)"
    by (cases "parseOpts bl d opts st6") auto
  note q = getPosIntParam_quiet [OF r1] getPosIntParam_quiet [OF r2] getConeArrDim_quiet [OF r3]
    getConeArrDim_quiet [OF r4] getPosIntParam_quiet [OF r5] getPosIntParam_quiet [OF r6]
    parseOpts_keeps [OF r7]
  have r3': "getConeArrDim bl ''q'' (k_q k) (k_qsize k) cone st2 = (rc3, q, qsize, st3)"
    using r3 by simp
  have r4': "getConeArrDim bl ''s'' (k_s k) (k_ssize k) cone st3 = (rc4, s, ssize, st4)"
    using r4 by simp
  show ?thesis
    using q
    by (auto simp add: cone_stage_def Let_def r1 r2 r3' r4' r5 r6 r7 quiet_def split: if_splits)
qed

subsection \<open>The warm start\<close>

lemma getWarmStart_undefined:
  "\<not> warm_array_or_absent key w \<Longrightarrow> getWarmStart T key px l w st = Inl UndefinedBehaviour"
  by (auto simp add: getWarmStart_def warm_array_or_absent_def Let_def
      split: option.splits pyobj.splits)

lemma getWarmStart_defined:
  "warm_array_or_absent key w \<Longrightarrow>
     \<exists>x p st'. getWarmStart T key px l w st =
                 Inr (if warm_valid key l w then 1 else 0, x, p, st') \<and>
               quiet st st' \<and> pyerr st' = pyerr st \<and>
               (\<not> warm_valid key l w \<longrightarrow> x = scs_calloc_pfloat l \<and> p = px)"
  by (auto simp add: getWarmStart_def warm_array_or_absent_def warm_valid_def float_vector_def
      quiet_def PySys_WriteStderr_def Let_def split: option.splits pyobj.splits)

lemma getWarmStart_Inr:
  assumes "getWarmStart T key px l w st = Inr (r, x, p, st')"
  shows "warm_array_or_absent key w \<and> r = (if warm_valid key l w then 1 else 0) \<and>
         quiet st st' \<and> pyerr st' = pyerr st \<and>
         (\<not> warm_valid key l w \<longrightarrow> x = scs_calloc_pfloat l \<and> p = px)"
proof (cases "warm_array_or_absent key w")
  case False
  with assms show ?thesis by (simp add: getWarmStart_undefined)
next
  case True
  from getWarmStart_defined [OF True, of T px l st] assms
  show ?thesis using True by auto
qed

lemma csolve_warm_None:
  "csolve_warm d ps None st =
     Inr (d\<lparr>d_WARM_START := 0\<rparr>, \<lparr> sol_x = None, sol_y = None, sol_s = None \<rparr>, ps, st)"
  by (simp add: csolve_warm_def)

lemma csolve_warm_undefined:
  assumes "\<not> (warm_array_or_absent ''x'' w \<and> warm_array_or_absent ''y'' w \<and>
              warm_array_or_absent ''s'' w)"
  shows "csolve_warm d ps (Some w) st = Inl UndefinedBehaviour"
proof (cases "warm_array_or_absent ''x'' w")
  case False
  then show ?thesis by (simp add: csolve_warm_def getWarmStart_undefined)
next
  case x: True
  from getWarmStart_defined [OF x, of getDoubleType "ps_x0 ps" "d_n d" st]
  obtain rx bx px0 st1 where
    gx: "getWarmStart getDoubleType ''x'' (ps_x0 ps) (d_n d) w st = Inr (rx, bx, px0, st1)"
    by blast
  show ?thesis
  proof (cases "warm_array_or_absent ''y'' w")
    case False
    then show ?thesis by (simp add: csolve_warm_def gx getWarmStart_undefined)
  next
    case y: True
    from getWarmStart_defined [OF y, of getDoubleType "ps_y0 ps" "d_m d" st1]
    obtain ry by' py0 st2 where
      gy: "getWarmStart getDoubleType ''y'' (ps_y0 ps) (d_m d) w st1 = Inr (ry, by', py0, st2)"
      by blast
    from assms x y have "\<not> warm_array_or_absent ''s'' w" by simp
    then show ?thesis by (simp add: csolve_warm_def gx gy getWarmStart_undefined)
  qed
qed

lemma csolve_warm_defined:
  assumes "warm_array_or_absent ''x'' w" "warm_array_or_absent ''y'' w"
    "warm_array_or_absent ''s'' w"
  shows "\<exists>sol ps3 st3.
     csolve_warm d ps (Some w) st =
       Inr (d\<lparr>d_WARM_START :=
               (if warm_valid ''x'' (d_n d) w then 1 else 0) OR
               (if warm_valid ''y'' (d_m d) w then 1 else 0) OR
               (if warm_valid ''s'' (d_m d) w then 1 else 0)\<rparr>, sol, ps3, st3) \<and>
     quiet st st3 \<and> pyerr st3 = pyerr st \<and>
     (\<not> warm_valid ''x'' (d_n d) w \<longrightarrow> sol_x sol = scs_calloc_pfloat (d_n d)) \<and>
     (\<not> warm_valid ''y'' (d_m d) w \<longrightarrow> sol_y sol = scs_calloc_pfloat (d_m d)) \<and>
     (\<not> warm_valid ''s'' (d_m d) w \<longrightarrow> sol_s sol = scs_calloc_pfloat (d_m d))"
proof -
  let ?fx = "if warm_valid ''x'' (d_n d) w then 1 else 0 :: int"
  let ?fy = "if warm_valid ''y'' (d_m d) w then 1 else 0 :: int"
  let ?fs = "if warm_valid ''s'' (d_m d) w then 1 else 0 :: int"
  from getWarmStart_defined [OF assms(1), of getDoubleType "ps_x0 ps" "d_n d" st]
  obtain bx px0 st1 where
    gx: "getWarmStart getDoubleType ''x'' (ps_x0 ps) (d_n d) w st = Inr (?fx, bx, px0, st1)"
    and wx: "quiet st st1" "pyerr st1 = pyerr st"
      "\<not> warm_valid ''x'' (d_n d) w \<longrightarrow> bx = scs_calloc_pfloat (d_n d)"
    by blast
  from getWarmStart_defined [OF assms(2), of getDoubleType "ps_y0 ps" "d_m d" st1]
  obtain by' py0 st2 where
    gy: "getWarmStart getDoubleType ''y'' (ps_y0 ps) (d_m d) w st1 = Inr (?fy, by', py0, st2)"
    and wy: "quiet st1 st2" "pyerr st2 = pyerr st1"
      "\<not> warm_valid ''y'' (d_m d) w \<longrightarrow> by' = scs_calloc_pfloat (d_m d)"
    by blast
  from getWarmStart_defined [OF assms(3), of getDoubleType "ps_s0 ps" "d_m d" st2]
  obtain bs ps0 st3 where
    gs: "getWarmStart getDoubleType ''s'' (ps_s0 ps) (d_m d) w st2 = Inr (?fs, bs, ps0, st3)"
    and ws: "quiet st2 st3" "pyerr st3 = pyerr st2"
      "\<not> warm_valid ''s'' (d_m d) w \<longrightarrow> bs = scs_calloc_pfloat (d_m d)"
    by blast
  have "csolve_warm d ps (Some w) st =
      Inr (d\<lparr>d_WARM_START := ?fx OR ?fy OR ?fs\<rparr>, \<lparr> sol_x = bx, sol_y = by', sol_s = bs \<rparr>,
           ps\<lparr>ps_x0 := px0, ps_y0 := py0, ps_s0 := ps0\<rparr>, st3)"
    by (simp add: csolve_warm_def Let_def gx gy gs or.assoc split del: if_split)
  moreover have "quiet st st3" "pyerr st3 = pyerr st"
    using wx wy ws by (simp_all add: quiet_def)
  ultimately show ?thesis
    using wx(3) wy(3) ws(3) by (intro exI conjI) (assumption | simp)+
qed

lemma freePyData_world:
  "\<exists>rs. reaped (freePyData d k ps st) = reaped st @ [rs] \<and>
        solved (freePyData d k ps st) = solved st \<and> pyerr (freePyData d k ps st) = pyerr st"
  by (simp add: freePyData_def)

lemma csolve_solve_undefined:
  "csolve_warm d ps warm st = Inl f \<Longrightarrow> csolve_solve bl scs d k ps warm st = Inl f"
  by (simp add: csolve_solve_def)

lemma csolve_solve_facts:
  assumes "csolve_warm d ps warm st = Inr (d3, sol, ps3, st3)"
  shows "\<exists>r st' rs.
     csolve_solve bl scs d k ps warm st = Inr (Some r, st') \<and>
     pyerr st' = pyerr st3 \<and>
     reaped st' = reaped st3 @ [rs] \<and>
     solved st' = solved st3 @ [(d3, k, sol)] \<and>
     i_solveTime (r_info r) = info_solveTime (snd (scs d3 k sol)) / 1000 \<and>
     i_setupTime (r_info r) = info_setupTime (snd (scs d3 k sol)) / 1000"
proof -
  obtain sol' info where sc: "scs d3 k sol = (sol', info)"
    by (cases "scs d3 k sol") auto
  show ?thesis
    using assms sc by (simp add: csolve_solve_def Let_def freePyData_def)
qed

lemma csolve_solve_cases:
  "(\<exists>f. csolve_solve bl scs d k ps warm st = Inl f) \<or>
   (\<exists>r st' rs d3 sol ps3 st3.
      csolve_warm d ps warm st = Inr (d3, sol, ps3, st3) \<and>
      csolve_solve bl scs d k ps warm st = Inr (Some r, st') \<and>
      pyerr st' = pyerr st3 \<and>
      reaped st' = reaped st3 @ [rs] \<and>
      solved st' = solved st3 @ [(d3, k, sol)] \<and>
      i_solveTime (r_info r) = info_solveTime (snd (scs d3 k sol)) / 1000 \<and>
      i_setupTime (r_info r) = info_setupTime (snd (scs d3 k sol)) / 1000)"
proof (cases "csolve_warm d ps warm st")
  case (Inl f)
  then show ?thesis by (simp add: csolve_solve_undefined)
next
  case (Inr g)
  obtain d3 sol ps3 st3 where g: "g = (d3, sol, ps3, st3)" by (cases g) auto
  from csolve_solve_facts [of d ps warm st d3 sol ps3 st3 bl scs k] Inr g
  show ?thesis by blast
qed

lemma csolve_warm_world:
  assumes "csolve_warm d ps warm st = Inr (d3, sol, ps3, st3)"
  shows "quiet st st3 \<and> pyerr st3 = pyerr st \<and> d_m d3 = d_m d \<and> d_n d3 = d_n d"
proof (cases warm)
  case None
  with assms show ?thesis by (auto simp add: csolve_warm_None quiet_def)
next
  case (Some w)
  show ?thesis
  proof (cases "warm_array_or_absent ''x'' w \<and> warm_array_or_absent ''y'' w \<and>
                warm_array_or_absent ''s'' w")
    case False
    from csolve_warm_undefined [OF False, of d ps st] assms Some show ?thesis by simp
  next
    case True
    then have a: "warm_array_or_absent ''x'' w" "warm_array_or_absent ''y'' w"
      "warm_array_or_absent ''s'' w" by simp_all
    from csolve_warm_defined [OF a, of d ps st] assms Some
    show ?thesis by auto
  qed
qed

lemma array_stage_Inr:
  "array_stage bl m n Ax Ai Ap b c = Inr (d, ps) \<Longrightarrow> d_m d = m \<and> d_n d = n"
  by (auto simp add: array_stage_def Let_def split: if_splits)

lemma array_stage_Inl:
  "array_stage bl m n Ax Ai Ap b c = Inl (d, ps, msg) \<Longrightarrow> msg \<in> set csolve_messages"
  by (auto simp add: array_stage_def Let_def csolve_messages_def split: if_splits)

lemma cone_stage_Inl:
  "cone_stage bl d k cone opts st = Inl (d1, k1, msg, st1) \<Longrightarrow> msg \<in> set csolve_messages"
  by (auto simp add: cone_stage_def Let_def csolve_messages_def split: if_splits prod.splits)

lemma finishWithErr_pyerr:
  "finishWithErr d k ps msg st = (None, snd (finishWithErr d k ps msg st)) \<and>
   pyerr (snd (finishWithErr d k ps msg st)) = Some (ValueError, msg) \<and>
   (\<exists>rs. reaped (snd (finishWithErr d k ps msg st)) = reaped st @ [rs])"
  by (simp add: finishWithErr_def freePyData_def PyErr_SetString_def)

lemma csolve_decided:
  "(\<exists>d k ps st'. 0 \<le> m \<and> 0 \<le> n \<and> d_m d = m \<and> d_n d = n \<and> quiet st st' \<and>
      (\<forall>warm. csolve bl scs m n Ax Ai Ap b c cone opts warm st =
               csolve_solve bl scs d k ps warm st')) \<or>
   (\<exists>msg st' rs. pyerr st' = Some (ValueError, msg) \<and> msg \<in> set csolve_messages \<and>
      reaped st' = reaped st @ (if m < 0 \<or> n < 0 then [] else [rs]) \<and>
      (\<forall>warm. csolve bl scs m n Ax Ai Ap b c cone opts warm st = Inr (None, st')))"
proof (cases "m < 0 \<or> n < 0")
  case True
  let ?msg = "if m < 0 then ''m must be a positive integer'' else ''n must be a positive integer''"
  have "\<forall>warm. csolve bl scs m n Ax Ai Ap b c cone opts warm st =
      Inr (None, PyErr_SetString ValueError ?msg st)"
    using True by (auto simp add: csolve_as_stages)
  moreover have "pyerr (PyErr_SetString ValueError ?msg st) = Some (ValueError, ?msg)"
    by (simp add: PyErr_SetString_def)
  moreover have "?msg \<in> set csolve_messages"
    by (simp add: csolve_messages_def)
  moreover have "reaped (PyErr_SetString ValueError ?msg st) =
      reaped st @ (if m < 0 \<or> n < 0 then [] else [[]])"
    using True by (simp add: PyErr_SetString_def)
  ultimately show ?thesis by blast
next
  case False
  then have mn: "\<not> m < 0" "\<not> n < 0" by auto
  show ?thesis
  proof (cases "array_stage bl m n Ax Ai Ap b c")
    case (Inl e)
    obtain d ps msg where e: "e = (d, ps, msg)" by (cases e) auto
    have "msg \<in> set csolve_messages" using Inl e array_stage_Inl by blast
    moreover have "\<forall>warm. csolve bl scs m n Ax Ai Ap b c cone opts warm st =
        Inr (None, snd (finishWithErr (Some d) (Some calloc_Cone) ps msg st))"
      using mn Inl e finishWithErr_pyerr [of "Some d" "Some calloc_Cone" ps msg st]
      by (simp add: csolve_as_stages)
    moreover obtain rs where
      "reaped (snd (finishWithErr (Some d) (Some calloc_Cone) ps msg st)) =
         reaped st @ (if m < 0 \<or> n < 0 then [] else [rs])"
      using finishWithErr_pyerr [of "Some d" "Some calloc_Cone" ps msg st] mn by auto
    ultimately show ?thesis
      using finishWithErr_pyerr [of "Some d" "Some calloc_Cone" ps msg st] by blast
  next
    case (Inr g)
    obtain d ps where g: "g = (d, ps)" by (cases g) auto
    have dm: "d_m d = m" "d_n d = n" using Inr g array_stage_Inr by blast+
    show ?thesis
    proof (cases "cone_stage bl d calloc_Cone cone opts st")
      case (Inl e)
      obtain d1 k1 msg st1 where e: "e = (d1, k1, msg, st1)" by (cases e) auto
      have "msg \<in> set csolve_messages" using Inl e cone_stage_Inl by blast
      moreover have "\<forall>warm. csolve bl scs m n Ax Ai Ap b c cone opts warm st =
          Inr (None, snd (finishWithErr (Some d1) (Some k1) ps msg st1))"
        using mn \<open>array_stage bl m n Ax Ai Ap b c = Inr g\<close> g Inl e
          finishWithErr_pyerr [of "Some d1" "Some k1" ps msg st1]
        by (simp add: csolve_as_stages csolve_cone_as_stage)
      moreover have "quiet st st1"
        using cone_stage_keeps [of bl d calloc_Cone cone opts st] Inl e by blast
      then obtain rs where
        "reaped (snd (finishWithErr (Some d1) (Some k1) ps msg st1)) =
           reaped st @ (if m < 0 \<or> n < 0 then [] else [rs])"
        using finishWithErr_pyerr [of "Some d1" "Some k1" ps msg st1] mn
        by (auto simp add: quiet_def)
      ultimately show ?thesis
        using finishWithErr_pyerr [of "Some d1" "Some k1" ps msg st1] by blast
    next
      case (Inr h)
      obtain d' k' st' where h: "h = (d', k', st')" by (cases h) auto
      have keep: "d_m d' = d_m d \<and> d_n d' = d_n d \<and> quiet st st'"
        using cone_stage_keeps [of bl d calloc_Cone cone opts st] Inr h by blast
      have "\<forall>warm. csolve bl scs m n Ax Ai Ap b c cone opts warm st =
          csolve_solve bl scs d' k' ps warm st'"
        using mn \<open>array_stage bl m n Ax Ai Ap b c = Inr g\<close> g Inr h
        by (simp add: csolve_as_stages csolve_cone_as_stage)
      with keep dm mn show ?thesis by (metis not_le)
    qed
  qed
qed

lemma csolve_reaps_once:
  assumes "0 \<le> m" "0 \<le> n"
    and "csolve bl scs m n Ax Ai Ap b c cone opts warm st = Inr (res, st')"
  shows "\<exists>rs. reaped st' = reaped st @ [rs]"
proof -
  from csolve_decided [of m n st bl scs Ax Ai Ap b c cone opts]
  show ?thesis
  proof (elim disjE exE conjE)
    fix d k ps st0
    assume q: "quiet st st0"
      and e: "\<forall>warm. csolve bl scs m n Ax Ai Ap b c cone opts warm st =
                csolve_solve bl scs d k ps warm st0"
    from csolve_solve_cases [of bl scs d k ps warm st0]
    show ?thesis
    proof (elim disjE exE conjE)
      fix f assume "csolve_solve bl scs d k ps warm st0 = Inl f"
      with e assms(3) show ?thesis by simp
    next
      fix r st1 rs d3 sol ps3 st3
      assume w: "csolve_warm d ps warm st0 = Inr (d3, sol, ps3, st3)"
        and s: "csolve_solve bl scs d k ps warm st0 = Inr (Some r, st1)"
        and rp: "reaped st1 = reaped st3 @ [rs]"
      from csolve_warm_world [OF w] q have "reaped st3 = reaped st"
        by (simp add: quiet_def)
      with e s rp assms(3) show ?thesis by auto
    qed
  next
    fix msg st0 rs
    assume "reaped st0 = reaped st @ (if m < 0 \<or> n < 0 then [] else [rs])"
      and "\<forall>warm. csolve bl scs m n Ax Ai Ap b c cone opts warm st = Inr (None, st0)"
    with assms show ?thesis by auto
  qed
qed

lemma csolve_success:
  assumes "csolve bl scs m n Ax Ai Ap b c cone opts warm st = Inr (Some r, st')"
  shows "\<exists>d k ps st0 d3 sol ps3 st3.
     0 \<le> m \<and> 0 \<le> n \<and> d_m d = m \<and> d_n d = n \<and> quiet st st0 \<and>
     csolve_warm d ps warm st0 = Inr (d3, sol, ps3, st3) \<and>
     solved st' = solved st @ [(d3, k, sol)] \<and>
     i_solveTime (r_info r) = info_solveTime (snd (scs d3 k sol)) / 1000 \<and>
     i_setupTime (r_info r) = info_setupTime (snd (scs d3 k sol)) / 1000"
proof -
  from csolve_decided [of m n st bl scs Ax Ai Ap b c cone opts]
  show ?thesis
  proof (elim disjE exE conjE)
    fix d k ps st0
    assume mn: "0 \<le> m" "0 \<le> n" and dm: "d_m d = m" "d_n d = n" and q: "quiet st st0"
      and e: "\<forall>warm. csolve bl scs m n Ax Ai Ap b c cone opts warm st =
                csolve_solve bl scs d k ps warm st0"
    from csolve_solve_cases [of bl scs d k ps warm st0]
    show ?thesis
    proof (elim disjE exE conjE)
      fix f assume "csolve_solve bl scs d k ps warm st0 = Inl f"
      with e assms show ?thesis by simp
    next
      fix r1 st1 rs d3 sol ps3 st3
      assume w: "csolve_warm d ps warm st0 = Inr (d3, sol, ps3, st3)"
        and s: "csolve_solve bl scs d k ps warm st0 = Inr (Some r1, st1)"
        and sv: "solved st1 = solved st3 @ [(d3, k, sol)]"
        and t1: "i_solveTime (r_info r1) = info_solveTime (snd (scs d3 k sol)) / 1000"
        and t2: "i_setupTime (r_info r1) = info_setupTime (snd (scs d3 k sol)) / 1000"
      from e s assms have eq: "r1 = r" "st1 = st'" by simp_all
      from csolve_warm_world [OF w] q have "solved st3 = solved st"
        by (simp add: quiet_def)
      with sv eq have "solved st' = solved st @ [(d3, k, sol)]" by simp
      with mn dm q w t1 t2 eq show ?thesis by blast
    qed
  next
    fix msg st0 rs
    assume "\<forall>warm. csolve bl scs m n Ax Ai Ap b c cone opts warm st = Inr (None, st0)"
    with assms show ?thesis by simp
  qed
qed

lemma finishWithErr_aborts:
  "take (length arg + 1) msg = arg @ '' '' \<Longrightarrow>
     aborts_naming (Inr (finishWithErr d k ps msg st)) arg msg"
  by (simp add: aborts_naming_def finishWithErr_def freePyData_def PyErr_SetString_def)

lemma warm_flag_values:
  "(if a then 1 else 0 :: int) OR (if b then 1 else 0) OR (if c then 1 else 0) =
     (if a \<or> b \<or> c then 1 else 0)"
  by simp

lemmas csolve_eval =
  csolve_def csolve_cone_def csolve_solve_def csolve_warm_def Let_def vec_def
  PyArray_ISFLOAT_def PyArray_ISINTEGER_def PyTypeNum_ISFLOAT_def PyTypeNum_ISINTEGER_def
  PyArray_NDIM_def PyArray_DIM0_def getContiguous_def getDoubleType_def getIntType_def
  sizeof_idxint_def calloc_Data_def calloc_Cone_def
  getPosIntParam_def getConeArrDim_def nonneg_idxint_def PyInt_Check_def PyLong_Check_def
  PyInt_AsLong_def PyLong_AsLong_def long_result_def LONG_MIN_def LONG_MAX_def to_idxint_def
  parseOpts_def getOptFloatParam_def getWarmStart_def scs_calloc_pfloat_def sample_scs_def
  idxint_as_l_def PyArray_SimpleNewFromData_def freePyData_def finishWithErr_def
  PySys_WriteStderr_def PyErr_SetString_def printErr_def world0_def

lemma sample_run_mismatch:
  "\<exists>r st'. csolve \<lparr> PY_MAJOR_VERSION = 3, DLONG = False \<rparr> sample_scs 3 2
     (vec NPY_DOUBLE [1, 1, 1]) (vec NPY_INT [0, 1, 2]) (vec NPY_INT [0, 2, 3])
     (vec NPY_DOUBLE [1, 1, 1]) (vec NPY_DOUBLE [1, 1])
     [''l'' \<mapsto> PyLong 3] (Some Map.empty)
     (Some [''x'' \<mapsto> PyArray (vec NPY_DOUBLE [1, 2, 3])]) world0 = Inr (Some r, st')"
  by (simp add: csolve_eval)

lemma sample_run_warm:
  "\<exists>r st'. csolve \<lparr> PY_MAJOR_VERSION = 3, DLONG = False \<rparr> sample_scs 3 2
     (vec NPY_DOUBLE [1, 1, 1]) (vec NPY_INT [0, 1, 2]) (vec NPY_INT [0, 2, 3])
     (vec NPY_DOUBLE [1, 1, 1]) (vec NPY_DOUBLE [1, 1])
     [''l'' \<mapsto> PyLong 3] (Some Map.empty)
     (Some [''x'' \<mapsto> PyArray (vec NPY_DOUBLE [1, 2]), ''y'' \<mapsto> PyArray (vec NPY_DOUBLE [1, 2])]) world0 = Inr (Some r, st')"
  by (simp add: csolve_eval)

lemma sample_run_overflow:
  "\<exists>st'. csolve \<lparr> PY_MAJOR_VERSION = 3, DLONG = True \<rparr> sample_scs 3 2
     (vec NPY_DOUBLE [1, 1, 1]) (vec NPY_INT [0, 1, 2]) (vec NPY_INT [0, 2, 3])
     (vec NPY_DOUBLE [1, 1, 1]) (vec NPY_DOUBLE [1, 1])
     [''q'' \<mapsto> PyList [PyLong 9223372036854775808]] (Some Map.empty) None world0 =
       Inr (None, st') \<and>
     pyerr st' = Some (ValueError, ''failed to parse cone field q'')"
  by (simp add: csolve_eval)

section \<open>What the entry point guarantees\<close>

text \<open>
  Claim C1 says that on every failing validation or parse path of \<^verbatim>\<open>csolve\<close>, a
  negative \<open>m\<close> or \<open>n\<close> among them, \<^verbatim>\<open>freePyData\<close> runs exactly once before the
  error surfaces. The lemma \<open>csolve_reaps_once\<close> above shows this for every call with
  \<open>0 \<le> m\<close> and \<open>0 \<le> n\<close>. The two shape checks are different: they set the exception
  and return at once. With \<open>m = -1\<close> the call returns \<^verbatim>\<open>NULL\<close> and the teardown has
  not run, although the two structures \<open>d\<close> and \<open>k\<close> were allocated before.
\<close>

theorem csolve_negative_shape_skips_teardown:
  "csolve bl scs (- 1) 2 Ax Ai Ap b c cone opts warm st =
     Inr (None, PyErr_SetString ValueError ''m must be a positive integer'' st) \<and>
   reaped (PyErr_SetString ValueError ''m must be a positive integer'' st) = reaped st"
  by (simp add: csolve_def PyErr_SetString_def)

theorem csolve_negative_shape_skips_teardown_witness:
  "csolve \<lparr> PY_MAJOR_VERSION = 3, DLONG = False \<rparr> sample_scs (- 1) 2
     (vec NPY_DOUBLE [1, 1, 1]) (vec NPY_INT [0, 1, 2]) (vec NPY_INT [0, 2, 3])
     (vec NPY_DOUBLE [1, 1, 1]) (vec NPY_DOUBLE [1, 1])
     [''l'' \<mapsto> PyLong 3] (Some Map.empty)
     None world0 =
     Inr (None, PyErr_SetString ValueError ''m must be a positive integer'' world0) \<and>
   reaped (PyErr_SetString ValueError ''m must be a positive integer'' world0) = []"
  using csolve_negative_shape_skips_teardown [where bl = "\<lparr> PY_MAJOR_VERSION = 3, DLONG = False \<rparr>"
      and scs = sample_scs and Ax = "vec NPY_DOUBLE [1, 1, 1]" and Ai = "vec NPY_INT [0, 1, 2]"
      and Ap = "vec NPY_INT [0, 2, 3]" and b = "vec NPY_DOUBLE [1, 1, 1]"
      and c = "vec NPY_DOUBLE [1, 1]" and cone = "[''l'' \<mapsto> PyLong 3]"
      and opts = "Some Map.empty" and warm = None and st = world0]
  by (simp add: world0_def PyErr_SetString_def)

text \<open>
  Claim C5, as amended: the checks of \<^verbatim>\<open>csolve\<close> run in the order \<open>m\<close>, \<open>n\<close>,
  \<open>Ax\<close>, \<open>Ai\<close>, \<open>Ap\<close>, \<open>c\<close> (kind and rank, then length \<open>n\<close>), \<open>b\<close> (kind and
  rank, then length \<open>m\<close>); the first one that fails aborts the call with \<open>ValueError\<close>
  and a message of its own that begins with the name of the offending argument. A \<open>c\<close>
  that is not a one-dimensional float array of length \<open>n\<close> always makes the call fail,
  and the error names \<open>c\<close> when the checks before it (\<open>m\<close>, \<open>n\<close>, \<open>Ax\<close>, \<open>Ai\<close>,
  \<open>Ap\<close>) pass. The nine messages differ from each other.
\<close>

theorem csolve_check_order:
  "(m < 0 \<longrightarrow>
      aborts_naming (csolve bl scs m n Ax Ai Ap b c cone opts warm st)
        ''m'' ''m must be a positive integer'') \<and>
   (0 \<le> m \<and> n < 0 \<longrightarrow>
      aborts_naming (csolve bl scs m n Ax Ai Ap b c cone opts warm st)
        ''n'' ''n must be a positive integer'') \<and>
   (0 \<le> m \<and> 0 \<le> n \<and> \<not> float_vector Ax \<longrightarrow>
      aborts_naming (csolve bl scs m n Ax Ai Ap b c cone opts warm st)
        ''Ax'' ''Ax must be a numpy array of floats'') \<and>
   (0 \<le> m \<and> 0 \<le> n \<and> float_vector Ax \<and> \<not> int_vector Ai \<longrightarrow>
      aborts_naming (csolve bl scs m n Ax Ai Ap b c cone opts warm st)
        ''Ai'' ''Ai must be a numpy array of ints'') \<and>
   (0 \<le> m \<and> 0 \<le> n \<and> float_vector Ax \<and> int_vector Ai \<and> \<not> int_vector Ap \<longrightarrow>
      aborts_naming (csolve bl scs m n Ax Ai Ap b c cone opts warm st)
        ''Ap'' ''Ap must be a numpy array of ints'') \<and>
   (0 \<le> m \<and> 0 \<le> n \<and> float_vector Ax \<and> int_vector Ai \<and> int_vector Ap \<and>
    \<not> float_vector c \<longrightarrow>
      aborts_naming (csolve bl scs m n Ax Ai Ap b c cone opts warm st)
        ''c'' ''c must be a dense numpy array with one dimension'') \<and>
   (0 \<le> m \<and> 0 \<le> n \<and> float_vector Ax \<and> int_vector Ai \<and> int_vector Ap \<and>
    float_vector c \<and> PyArray_DIM0 c \<noteq> n \<longrightarrow>
      aborts_naming (csolve bl scs m n Ax Ai Ap b c cone opts warm st)
        ''c'' ''c has incompatible dimension with A'') \<and>
   (0 \<le> m \<and> 0 \<le> n \<and> float_vector Ax \<and> int_vector Ai \<and> int_vector Ap \<and>
    float_vector c \<and> PyArray_DIM0 c = n \<and> \<not> float_vector b \<longrightarrow>
      aborts_naming (csolve bl scs m n Ax Ai Ap b c cone opts warm st)
        ''b'' ''b must be a dense numpy array with one dimension'') \<and>
   (0 \<le> m \<and> 0 \<le> n \<and> float_vector Ax \<and> int_vector Ai \<and> int_vector Ap \<and>
    float_vector c \<and> PyArray_DIM0 c = n \<and> float_vector b \<and> PyArray_DIM0 b \<noteq> m \<longrightarrow>
      aborts_naming (csolve bl scs m n Ax Ai Ap b c cone opts warm st)
        ''b'' ''b has incompatible dimension with A'') \<and>
   (\<not> float_vector c \<or> PyArray_DIM0 c \<noteq> n \<longrightarrow>
      (\<exists>st'. csolve bl scs m n Ax Ai Ap b c cone opts warm st = Inr (None, st'))) \<and>
   distinct (take 9 csolve_messages)"
proof (intro conjI impI; (elim conjE)?)
  show "distinct (take 9 csolve_messages)"
    by (simp add: csolve_messages_def)
next
  assume "\<not> float_vector c \<or> PyArray_DIM0 c \<noteq> n"
  then show "\<exists>st'. csolve bl scs m n Ax Ai Ap b c cone opts warm st = Inr (None, st')"
    by (auto simp add: csolve_as_stages array_stage_def Let_def finishWithErr_def)
qed (simp_all add: csolve_as_stages array_stage_def Let_def finishWithErr_aborts,
     simp_all add: aborts_naming_def PyErr_SetString_def)

theorem csolve_check_order_witness:
  "aborts_naming
     (csolve \<lparr> PY_MAJOR_VERSION = 3, DLONG = False \<rparr> sample_scs 3 2
        (vec NPY_DOUBLE [1, 1, 1]) (vec NPY_INT [0, 1, 2]) (vec NPY_INT [0, 2, 3])
        (vec NPY_DOUBLE [1, 1, 1]) (vec NPY_DOUBLE [1, 1, 1])
        [''l'' \<mapsto> PyLong 3] (Some Map.empty) None world0)
     ''c'' ''c has incompatible dimension with A''"
  using csolve_check_order [where m = 3 and n = 2 and bl = "\<lparr> PY_MAJOR_VERSION = 3, DLONG = False \<rparr>"
      and scs = sample_scs and Ax = "vec NPY_DOUBLE [1, 1, 1]" and Ai = "vec NPY_INT [0, 1, 2]"
      and Ap = "vec NPY_INT [0, 2, 3]" and b = "vec NPY_DOUBLE [1, 1, 1]"
      and c = "vec NPY_DOUBLE [1, 1, 1]" and cone = "[''l'' \<mapsto> PyLong 3]"
      and opts = "Some Map.empty" and warm = None and st = world0]
  by (simp add: float_vector_def int_vector_def vec_def PyArray_ISFLOAT_def
      PyArray_ISINTEGER_def PyTypeNum_ISFLOAT_def PyTypeNum_ISINTEGER_def PyArray_NDIM_def
      PyArray_DIM0_def)

text \<open>
  The claim as it was written has every \<open>c\<close> of a length other than \<open>n\<close> fail with an
  error naming \<open>c\<close>. An earlier check that fails comes first: with \<open>m = -1\<close> the
  error names \<open>m\<close>, and with an \<open>Ax\<close> of integers it names \<open>Ax\<close>, although \<open>c\<close> has
  three elements and \<open>n\<close> is 2.
\<close>

theorem csolve_check_order_counterexample:
  "PyArray_DIM0 (vec NPY_DOUBLE [1, 1, 1]) \<noteq> 2 \<and>
   csolve \<lparr> PY_MAJOR_VERSION = 3, DLONG = False \<rparr> sample_scs (- 1) 2
     (vec NPY_DOUBLE [1, 1, 1]) (vec NPY_INT [0, 1, 2]) (vec NPY_INT [0, 2, 3])
     (vec NPY_DOUBLE [1, 1, 1]) (vec NPY_DOUBLE [1, 1, 1])
     [''l'' \<mapsto> PyLong 3] (Some Map.empty) None world0 =
     Inr (None, \<lparr> pyerr = Some (ValueError, ''m must be a positive integer''),
                  stderr = [], reaped = [], solved = [] \<rparr>) \<and>
   take 2 ''m must be a positive integer'' \<noteq> ''c '' \<and>
   csolve \<lparr> PY_MAJOR_VERSION = 3, DLONG = False \<rparr> sample_scs 3 2
     (vec NPY_INT [1, 1, 1]) (vec NPY_INT [0, 1, 2]) (vec NPY_INT [0, 2, 3])
     (vec NPY_DOUBLE [1, 1, 1]) (vec NPY_DOUBLE [1, 1, 1])
     [''l'' \<mapsto> PyLong 3] (Some Map.empty) None world0 =
     Inr (None, \<lparr> pyerr = Some (ValueError, ''Ax must be a numpy array of floats''),
                  stderr = [], reaped = [[scs_free F_k, scs_free F_d]], solved = [] \<rparr>) \<and>
   take 2 ''Ax must be a numpy array of floats'' \<noteq> ''c ''"
  by (simp add: csolve_eval)

text \<open>
  Claim C6 says that a warm-start entry that is there but is not a one-dimensional
  floating-point array of the expected length makes \<^verbatim>\<open>getWarmStart\<close> return 0 with
  a zero-filled buffer, and that the solve goes on. For an entry that is a numpy array
  this is so (lemmas \<open>getWarmStart_array_best_effort\<close> and
  \<open>csolve_array_warm_start\<close> below). \<^verbatim>\<open>csolve\<close> checks only that \<open>warm\<close> is a
  dictionary, though, and \<^verbatim>\<open>getWarmStart\<close> casts the entry to an array without a test.
  With the list \<open>[1.0, 2.0, 3.0]\<close> under \<open>x\<close> and \<open>n = 2\<close>, as in the spec's own scenario,
  the three array macros read an object that is no array: the behaviour is undefined,
  for \<^verbatim>\<open>getWarmStart\<close> and so for the whole call.
\<close>

theorem getWarmStart_reads_non_array:
  "getWarmStart getDoubleType ''x'' None 2 [''x'' \<mapsto> PyList [PyFloat 1, PyFloat 2, PyFloat 3]] world0 = Inl UndefinedBehaviour \<and>
   csolve \<lparr> PY_MAJOR_VERSION = 3, DLONG = False \<rparr> sample_scs 3 2
     (vec NPY_DOUBLE [1, 1, 1]) (vec NPY_INT [0, 1, 2]) (vec NPY_INT [0, 2, 3])
     (vec NPY_DOUBLE [1, 1, 1]) (vec NPY_DOUBLE [1, 1])
     [''l'' \<mapsto> PyLong 3] (Some Map.empty)
     (Some [''x'' \<mapsto> PyList [PyFloat 1, PyFloat 2, PyFloat 3]]) world0 = Inl UndefinedBehaviour"
  by (simp add: csolve_eval)

theorem getWarmStart_reads_non_array_witness:
  "isl (getWarmStart getDoubleType ''x'' None 2 [''x'' \<mapsto> PyList [PyFloat 1, PyFloat 2, PyFloat 3]] world0) \<and>
   isl (csolve \<lparr> PY_MAJOR_VERSION = 3, DLONG = False \<rparr> sample_scs 3 2
     (vec NPY_DOUBLE [1, 1, 1]) (vec NPY_INT [0, 1, 2]) (vec NPY_INT [0, 2, 3])
     (vec NPY_DOUBLE [1, 1, 1]) (vec NPY_DOUBLE [1, 1])
     [''l'' \<mapsto> PyLong 3] (Some Map.empty)
     (Some [''x'' \<mapsto> PyList [PyFloat 1, PyFloat 2, PyFloat 3]]) world0)"
  using getWarmStart_reads_non_array by simp

lemma getWarmStart_array_best_effort:
  "0 \<le> l \<Longrightarrow> w key = Some (PyArray a) \<Longrightarrow> \<not> (float_vector a \<and> PyArray_DIM0 a = l) \<Longrightarrow>
     getWarmStart T key px l w st =
       Inr (0, Some (replicate (nat l) 0), px,
            PySys_WriteStderr (''Error parsing warm-start input'' @ [CHR 0x0A]) st)"
  by (auto simp add: getWarmStart_def float_vector_def scs_calloc_pfloat_def Let_def)

lemma csolve_array_warm_start:
  assumes a: "warm_array_or_absent ''x'' w" "warm_array_or_absent ''y'' w"
    "warm_array_or_absent ''s'' w"
  shows "((\<exists>st'. csolve bl scs m n Ax Ai Ap b c cone opts (Some w) st = Inr (None, st')) =
          (\<exists>st'. csolve bl scs m n Ax Ai Ap b c cone opts None st = Inr (None, st'))) \<and>
         (\<forall>r st'. csolve bl scs m n Ax Ai Ap b c cone opts (Some w) st = Inr (Some r, st') \<longrightarrow>
            (\<exists>d k sol. solved st' = solved st @ [(d, k, sol)] \<and>
               (\<not> warm_valid ''x'' n w \<longrightarrow> sol_x sol = Some (replicate (nat n) 0)) \<and>
               (\<not> warm_valid ''y'' m w \<longrightarrow> sol_y sol = Some (replicate (nat m) 0)) \<and>
               (\<not> warm_valid ''s'' m w \<longrightarrow> sol_s sol = Some (replicate (nat m) 0))))"
proof (intro conjI allI impI)
  from csolve_decided [of m n st bl scs Ax Ai Ap b c cone opts]
  show "(\<exists>st'. csolve bl scs m n Ax Ai Ap b c cone opts (Some w) st = Inr (None, st')) =
          (\<exists>st'. csolve bl scs m n Ax Ai Ap b c cone opts None st = Inr (None, st'))"
  proof (elim disjE exE conjE)
    fix d k ps st0
    assume e: "\<forall>warm. csolve bl scs m n Ax Ai Ap b c cone opts warm st =
                csolve_solve bl scs d k ps warm st0"
    from csolve_solve_cases [of bl scs d k ps "Some w" st0]
      csolve_solve_cases [of bl scs d k ps None st0] e
    show ?thesis by auto
  next
    fix msg st0 rs
    assume "\<forall>warm. csolve bl scs m n Ax Ai Ap b c cone opts warm st = Inr (None, st0)"
    then show ?thesis by simp
  qed
next
  fix r st'
  assume run: "csolve bl scs m n Ax Ai Ap b c cone opts (Some w) st = Inr (Some r, st')"
  from csolve_success [OF run]
  obtain d k ps st0 d3 sol ps3 st3 where
    mn: "0 \<le> m" "0 \<le> n" and dm: "d_m d = m" "d_n d = n"
    and w: "csolve_warm d ps (Some w) st0 = Inr (d3, sol, ps3, st3)"
    and sv: "solved st' = solved st @ [(d3, k, sol)]"
    by blast
  from csolve_warm_defined [OF a, of d ps st0] w dm mn
  have "(\<not> warm_valid ''x'' n w \<longrightarrow> sol_x sol = Some (replicate (nat n) 0)) \<and>
        (\<not> warm_valid ''y'' m w \<longrightarrow> sol_y sol = Some (replicate (nat m) 0)) \<and>
        (\<not> warm_valid ''s'' m w \<longrightarrow> sol_s sol = Some (replicate (nat m) 0))"
    by (auto simp add: scs_calloc_pfloat_def)
  with sv show "\<exists>d k sol. solved st' = solved st @ [(d, k, sol)] \<and>
               (\<not> warm_valid ''x'' n w \<longrightarrow> sol_x sol = Some (replicate (nat n) 0)) \<and>
               (\<not> warm_valid ''y'' m w \<longrightarrow> sol_y sol = Some (replicate (nat m) 0)) \<and>
               (\<not> warm_valid ''s'' m w \<longrightarrow> sol_s sol = Some (replicate (nat m) 0))"
    by blast
qed

text \<open>
  Claim C7: when \<^verbatim>\<open>csolve\<close> reaches the solver, the field \<open>WARM_START\<close> of the data
  it passes is 0 without a warm-start mapping, and otherwise the bitwise OR of the three
  values that \<^verbatim>\<open>getWarmStart\<close> returns for \<open>x\<close> (length \<open>n\<close>), \<open>y\<close> and \<open>s\<close>
  (length \<open>m\<close>), whatever the state and the previous content of the output location;
  it is nonzero exactly when one of the three is.
\<close>

theorem csolve_warm_start_flag:
  "csolve bl scs m n Ax Ai Ap b c cone opts warm st = Inr (Some r, st') \<longrightarrow>
     (\<exists>d k sol.
        solved st' = solved st @ [(d, k, sol)] \<and>
        (case warm of
           None \<Rightarrow> d_WARM_START d = 0
         | Some w \<Rightarrow>
             (\<exists>rx x px' sx' ry y py' sy' rs s pz' sz'.
                getWarmStart getDoubleType ''x'' px n w sx = Inr (rx, x, px', sx') \<and>
                getWarmStart getDoubleType ''y'' py m w sy = Inr (ry, y, py', sy') \<and>
                getWarmStart getDoubleType ''s'' pz m w sz = Inr (rs, s, pz', sz') \<and>
                d_WARM_START d = rx OR ry OR rs \<and>
                (d_WARM_START d \<noteq> 0) = (rx \<noteq> 0 \<or> ry \<noteq> 0 \<or> rs \<noteq> 0))))"
proof
  assume run: "csolve bl scs m n Ax Ai Ap b c cone opts warm st = Inr (Some r, st')"
  from csolve_success [OF run]
  obtain d k ps st0 d3 sol ps3 st3 where
    dm: "d_m d = m" "d_n d = n"
    and w: "csolve_warm d ps warm st0 = Inr (d3, sol, ps3, st3)"
    and sv: "solved st' = solved st @ [(d3, k, sol)]"
    by blast
  have "case warm of
           None \<Rightarrow> d_WARM_START d3 = 0
         | Some w \<Rightarrow>
             (\<exists>rx x px' sx' ry y py' sy' rs s pz' sz'.
                getWarmStart getDoubleType ''x'' px n w sx = Inr (rx, x, px', sx') \<and>
                getWarmStart getDoubleType ''y'' py m w sy = Inr (ry, y, py', sy') \<and>
                getWarmStart getDoubleType ''s'' pz m w sz = Inr (rs, s, pz', sz') \<and>
                d_WARM_START d3 = rx OR ry OR rs \<and>
                (d_WARM_START d3 \<noteq> 0) = (rx \<noteq> 0 \<or> ry \<noteq> 0 \<or> rs \<noteq> 0))"
  proof (cases warm)
    case None
    with w show ?thesis by (auto simp add: csolve_warm_None)
  next
    case (Some wm)
    have a: "warm_array_or_absent ''x'' wm \<and> warm_array_or_absent ''y'' wm \<and>
             warm_array_or_absent ''s'' wm"
    proof (rule ccontr)
      assume n: "\<not> ?thesis"
      from csolve_warm_undefined [OF n, of d ps st0] w Some show False by simp
    qed
    then have a': "warm_array_or_absent ''x'' wm" "warm_array_or_absent ''y'' wm"
      "warm_array_or_absent ''s'' wm" by simp_all
    let ?fx = "if warm_valid ''x'' n wm then 1 else 0 :: int"
    let ?fy = "if warm_valid ''y'' m wm then 1 else 0 :: int"
    let ?fs = "if warm_valid ''s'' m wm then 1 else 0 :: int"
    from csolve_warm_defined [OF a', of d ps st0] w Some dm
    have flag: "d_WARM_START d3 = ?fx OR ?fy OR ?fs" by auto
    from getWarmStart_defined [OF a'(1), of getDoubleType px n sx]
    obtain x px' sx' where gx: "getWarmStart getDoubleType ''x'' px n wm sx = Inr (?fx, x, px', sx')"
      by blast
    from getWarmStart_defined [OF a'(2), of getDoubleType py m sy]
    obtain y py' sy' where gy: "getWarmStart getDoubleType ''y'' py m wm sy = Inr (?fy, y, py', sy')"
      by blast
    from getWarmStart_defined [OF a'(3), of getDoubleType pz m sz]
    obtain s pz' sz' where gs: "getWarmStart getDoubleType ''s'' pz m wm sz = Inr (?fs, s, pz', sz')"
      by blast
    have nz: "(d_WARM_START d3 \<noteq> 0) = (?fx \<noteq> 0 \<or> ?fy \<noteq> 0 \<or> ?fs \<noteq> 0)"
      unfolding flag warm_flag_values by simp
    from gx gy gs flag nz Some show ?thesis
      by (simp only: option.case) blast
  qed
  with sv show "\<exists>d k sol.
        solved st' = solved st @ [(d, k, sol)] \<and>
        (case warm of
           None \<Rightarrow> d_WARM_START d = 0
         | Some w \<Rightarrow>
             (\<exists>rx x px' sx' ry y py' sy' rs s pz' sz'.
                getWarmStart getDoubleType ''x'' px n w sx = Inr (rx, x, px', sx') \<and>
                getWarmStart getDoubleType ''y'' py m w sy = Inr (ry, y, py', sy') \<and>
                getWarmStart getDoubleType ''s'' pz m w sz = Inr (rs, s, pz', sz') \<and>
                d_WARM_START d = rx OR ry OR rs \<and>
                (d_WARM_START d \<noteq> 0) = (rx \<noteq> 0 \<or> ry \<noteq> 0 \<or> rs \<noteq> 0)))"
    by blast
qed

theorem csolve_warm_start_flag_witness:
  "getWarmStart getDoubleType ''x'' None 2
     [''x'' \<mapsto> PyArray (vec NPY_DOUBLE [1, 2]), ''y'' \<mapsto> PyArray (vec NPY_DOUBLE [1, 2])] world0 =
     Inr (1, Some [1, 2], Some (vec NPY_DOUBLE [1, 2]), world0) \<and>
   (\<exists>x st'. getWarmStart getDoubleType ''y'' None 3
     [''x'' \<mapsto> PyArray (vec NPY_DOUBLE [1, 2]), ''y'' \<mapsto> PyArray (vec NPY_DOUBLE [1, 2])] world0 = Inr (0, x, None, st')) \<and>
   (\<exists>x st'. getWarmStart getDoubleType ''s'' None 3
     [''x'' \<mapsto> PyArray (vec NPY_DOUBLE [1, 2]), ''y'' \<mapsto> PyArray (vec NPY_DOUBLE [1, 2])] world0 = Inr (0, x, None, st')) \<and>
   (\<exists>r st' d k sol.
      csolve \<lparr> PY_MAJOR_VERSION = 3, DLONG = False \<rparr> sample_scs 3 2
     (vec NPY_DOUBLE [1, 1, 1]) (vec NPY_INT [0, 1, 2]) (vec NPY_INT [0, 2, 3])
     (vec NPY_DOUBLE [1, 1, 1]) (vec NPY_DOUBLE [1, 1])
     [''l'' \<mapsto> PyLong 3] (Some Map.empty)
     (Some [''x'' \<mapsto> PyArray (vec NPY_DOUBLE [1, 2]), ''y'' \<mapsto> PyArray (vec NPY_DOUBLE [1, 2])]) world0 = Inr (Some r, st') \<and>
      solved st' = [(d, k, sol)] \<and> d_WARM_START d = 1)"
proof -
  let ?w = "[''x'' \<mapsto> PyArray (vec NPY_DOUBLE [1, 2]), ''y'' \<mapsto> PyArray (vec NPY_DOUBLE [1, 2])]"
  from sample_run_warm obtain r st' where
    run: "csolve \<lparr> PY_MAJOR_VERSION = 3, DLONG = False \<rparr> sample_scs 3 2
     (vec NPY_DOUBLE [1, 1, 1]) (vec NPY_INT [0, 1, 2]) (vec NPY_INT [0, 2, 3])
     (vec NPY_DOUBLE [1, 1, 1]) (vec NPY_DOUBLE [1, 1])
     [''l'' \<mapsto> PyLong 3] (Some Map.empty)
     (Some ?w) world0 = Inr (Some r, st')"
    by blast
  have gx: "getWarmStart getDoubleType ''x'' None 2 ?w world0 =
      Inr (1, Some [1, 2], Some (vec NPY_DOUBLE [1, 2]), world0)"
    by (simp add: getWarmStart_def vec_def PyArray_ISFLOAT_def PyTypeNum_ISFLOAT_def
        PyArray_NDIM_def PyArray_DIM0_def Let_def scs_calloc_pfloat_def getContiguous_def
        getDoubleType_def)
  have gy: "\<exists>x st'. getWarmStart getDoubleType ''y'' None 3 ?w world0 = Inr (0, x, None, st')"
    by (simp add: getWarmStart_def vec_def PyArray_ISFLOAT_def PyTypeNum_ISFLOAT_def
        PyArray_NDIM_def PyArray_DIM0_def Let_def scs_calloc_pfloat_def)
  have gs: "\<exists>x st'. getWarmStart getDoubleType ''s'' None 3 ?w world0 = Inr (0, x, None, st')"
    by (simp add: getWarmStart_def vec_def PyArray_ISFLOAT_def PyTypeNum_ISFLOAT_def
        PyArray_NDIM_def PyArray_DIM0_def Let_def scs_calloc_pfloat_def)
  have w0: "solved world0 = []" by (simp add: world0_def)
  note t = csolve_warm_start_flag [where warm = "Some ?w" and r = r and st' = st'
      and px = None and py = None and pz = None and sx = world0 and sy = world0 and sz = world0
      and bl = "\<lparr> PY_MAJOR_VERSION = 3, DLONG = False \<rparr>"
      and scs = sample_scs and m = 3 and n = 2
      and Ax = "vec NPY_DOUBLE [1, 1, 1]" and Ai = "vec NPY_INT [0, 1, 2]"
      and Ap = "vec NPY_INT [0, 2, 3]" and b = "vec NPY_DOUBLE [1, 1, 1]"
      and c = "vec NPY_DOUBLE [1, 1]" and cone = "[''l'' \<mapsto> PyLong 3]"
      and opts = "Some Map.empty" and st = world0, rule_format, OF run]
  from t gx gy gs have "\<exists>d k sol. solved st' = [(d, k, sol)] \<and> d_WARM_START d = 1"
    by (auto simp add: w0)
  with run gx gy gs show ?thesis by blast
qed

text \<open>
  Claim C8: in the dictionary that \<^verbatim>\<open>csolve\<close> returns, \<open>solveTime\<close> and
  \<open>setupTime\<close> are the values the solver left in its diagnostics, divided by 1000.
  With the solver stand-in, which reports 1500 and 250 milliseconds, they are 1.5 and
  0.25 seconds.
\<close>

theorem csolve_times_in_seconds:
  "csolve bl scs m n Ax Ai Ap b c cone opts warm st = Inr (Some r, st') \<longrightarrow>
     (\<exists>d k sol.
        solved st' = solved st @ [(d, k, sol)] \<and>
        i_solveTime (r_info r) = info_solveTime (snd (scs d k sol)) / 1000 \<and>
        i_setupTime (r_info r) = info_setupTime (snd (scs d k sol)) / 1000)"
proof
  assume run: "csolve bl scs m n Ax Ai Ap b c cone opts warm st = Inr (Some r, st')"
  from csolve_success [OF run]
  show "\<exists>d k sol.
        solved st' = solved st @ [(d, k, sol)] \<and>
        i_solveTime (r_info r) = info_solveTime (snd (scs d k sol)) / 1000 \<and>
        i_setupTime (r_info r) = info_setupTime (snd (scs d k sol)) / 1000"
    by blast
qed

theorem csolve_times_in_seconds_witness:
  "\<exists>r st'.
     csolve \<lparr> PY_MAJOR_VERSION = 3, DLONG = False \<rparr> sample_scs 3 2
     (vec NPY_DOUBLE [1, 1, 1]) (vec NPY_INT [0, 1, 2]) (vec NPY_INT [0, 2, 3])
     (vec NPY_DOUBLE [1, 1, 1]) (vec NPY_DOUBLE [1, 1])
     [''l'' \<mapsto> PyLong 3] (Some Map.empty)
     (Some [''x'' \<mapsto> PyArray (vec NPY_DOUBLE [1, 2, 3])]) world0 = Inr (Some r, st') \<and>
     i_solveTime (r_info r) = 3 / 2 \<and> i_setupTime (r_info r) = 1 / 4"
proof -
  from sample_run_mismatch obtain r st' where
    run: "csolve \<lparr> PY_MAJOR_VERSION = 3, DLONG = False \<rparr> sample_scs 3 2
     (vec NPY_DOUBLE [1, 1, 1]) (vec NPY_INT [0, 1, 2]) (vec NPY_INT [0, 2, 3])
     (vec NPY_DOUBLE [1, 1, 1]) (vec NPY_DOUBLE [1, 1])
     [''l'' \<mapsto> PyLong 3] (Some Map.empty)
     (Some [''x'' \<mapsto> PyArray (vec NPY_DOUBLE [1, 2, 3])]) world0 = Inr (Some r, st')"
    by blast
  note t = csolve_times_in_seconds [where r = r and st' = st'
      and warm = "Some [''x'' \<mapsto> PyArray (vec NPY_DOUBLE [1, 2, 3])]"
      and bl = "\<lparr> PY_MAJOR_VERSION = 3, DLONG = False \<rparr>"
      and scs = sample_scs and m = 3 and n = 2
      and Ax = "vec NPY_DOUBLE [1, 1, 1]" and Ai = "vec NPY_INT [0, 1, 2]"
      and Ap = "vec NPY_INT [0, 2, 3]" and b = "vec NPY_DOUBLE [1, 1, 1]"
      and c = "vec NPY_DOUBLE [1, 1]" and cone = "[''l'' \<mapsto> PyLong 3]"
      and opts = "Some Map.empty" and st = world0, rule_format, OF run]
  from t have "i_solveTime (r_info r) = 3 / 2 \<and> i_setupTime (r_info r) = 1 / 4"
    by (auto simp add: sample_scs_def)
  with run show ?thesis by blast
qed

text \<open>
  Claim C10: whenever \<^verbatim>\<open>csolve\<close> returns \<^verbatim>\<open>NULL\<close>, the pending exception is
  \<open>ValueError\<close> with one of the sixteen messages of the source, whatever kind of
  failure it was; also where \<^verbatim>\<open>PyLong_AsLong\<close> had left an \<open>OverflowError\<close> behind,
  as in the instance.
\<close>

theorem csolve_error_is_ValueError:
  "csolve bl scs m n Ax Ai Ap b c cone opts warm st = Inr (None, st') \<longrightarrow>
     (\<exists>msg. pyerr st' = Some (ValueError, msg) \<and> msg \<in> set csolve_messages)"
proof
  assume n: "csolve bl scs m n Ax Ai Ap b c cone opts warm st = Inr (None, st')"
  from csolve_decided [of m n st bl scs Ax Ai Ap b c cone opts]
  show "\<exists>msg. pyerr st' = Some (ValueError, msg) \<and> msg \<in> set csolve_messages"
  proof (elim disjE exE conjE)
    fix d k ps st0
    assume e: "\<forall>warm. csolve bl scs m n Ax Ai Ap b c cone opts warm st =
                csolve_solve bl scs d k ps warm st0"
    from csolve_solve_cases [of bl scs d k ps warm st0] e n
    show ?thesis by auto
  next
    fix msg st0 rs
    assume "pyerr st0 = Some (ValueError, msg)" "msg \<in> set csolve_messages"
      and "\<forall>warm. csolve bl scs m n Ax Ai Ap b c cone opts warm st = Inr (None, st0)"
    with n show ?thesis by auto
  qed
qed

theorem csolve_error_is_ValueError_witness:
  "\<exists>st'. csolve \<lparr> PY_MAJOR_VERSION = 3, DLONG = True \<rparr> sample_scs 3 2
     (vec NPY_DOUBLE [1, 1, 1]) (vec NPY_INT [0, 1, 2]) (vec NPY_INT [0, 2, 3])
     (vec NPY_DOUBLE [1, 1, 1]) (vec NPY_DOUBLE [1, 1])
     [''q'' \<mapsto> PyList [PyLong 9223372036854775808]] (Some Map.empty) None world0 =
       Inr (None, st') \<and>
     (\<exists>msg. pyerr st' = Some (ValueError, msg) \<and> msg \<in> set csolve_messages)"
proof -
  from sample_run_overflow obtain st' where
    run: "csolve \<lparr> PY_MAJOR_VERSION = 3, DLONG = True \<rparr> sample_scs 3 2
     (vec NPY_DOUBLE [1, 1, 1]) (vec NPY_INT [0, 1, 2]) (vec NPY_INT [0, 2, 3])
     (vec NPY_DOUBLE [1, 1, 1]) (vec NPY_DOUBLE [1, 1])
     [''q'' \<mapsto> PyList [PyLong 9223372036854775808]] (Some Map.empty) None world0 =
       Inr (None, st')"
    by blast
  from csolve_error_is_ValueError [where bl = "\<lparr> PY_MAJOR_VERSION = 3, DLONG = True \<rparr>"
      and scs = sample_scs and m = 3
      and n = 2 and Ax = "vec NPY_DOUBLE [1, 1, 1]" and Ai = "vec NPY_INT [0, 1, 2]"
      and Ap = "vec NPY_INT [0, 2, 3]" and b = "vec NPY_DOUBLE [1, 1, 1]"
      and c = "vec NPY_DOUBLE [1, 1]" and cone = "[''q'' \<mapsto> PyList [PyLong 9223372036854775808]]"
      and opts = "Some Map.empty" and warm = None and st = world0 and st' = st', rule_format, OF run]
    run
  show ?thesis by blast
qed

end
